theory Spec2Isabelle
  imports Complex_Main "HOL-Library.Word" "HOL-Library.Log_Nat"
begin

unbundle bit_operations_syntax

section \<open>Data model of \<^verbatim>\<open>tiled/server/authentication.py\<close>\<close>

text \<open>
  Instants (\<^verbatim>\<open>datetime\<close>, and the float seconds that \<^verbatim>\<open>.timestamp()\<close> returns) and
  durations (\<^verbatim>\<open>timedelta\<close>) are integers counting microseconds, the resolution of
  Python's \<^verbatim>\<open>datetime\<close>; their arithmetic is exact. Every call of
  \<^verbatim>\<open>datetime.utcnow()\<close> is an input of the function that makes it, so that two calls
  within one request may read two different instants.
\<close>

type_synonym instant = int
type_synonym timedelta = int

definition UNIT_SECOND :: timedelta where
  "UNIT_SECOND = 1000000"

text \<open>
  \<^verbatim>\<open>.timestamp()\<close> of a naive \<^verbatim>\<open>datetime\<close>: Python reads the wall-clock value as local
  time and subtracts the offset that the local zone has at that wall-clock time. The
  zone is given by that offset; it is zero everywhere when the process runs in UTC.
\<close>

definition timestamp :: "(instant \<Rightarrow> timedelta) \<Rightarrow> instant \<Rightarrow> instant" where
  "timestamp utcoffset d = d - utcoffset d"

text \<open>
  The quotient of two integers as Python's true division gives it: the double nearest
  to the exact quotient, ties going to the even mantissa. The double is held as the
  rational it denotes. \<open>binary_exponent x\<close> is the \<open>e\<close> with \<open>2 ^ e \<le> x < 2 ^ (e + 1)\<close>, and
  the mantissa has 53 bits. Quotients of two \<^verbatim>\<open>timedelta\<close>s are far inside the range of
  normal doubles, so neither overflow nor subnormal numbers are modelled.
\<close>

definition round_half_even :: "rat \<Rightarrow> int" where
  "round_half_even x =
     (let f = \<lfloor>x\<rfloor>; d = x - of_int f
      in if d < 1 / 2 then f else if 1 / 2 < d then f + 1 else if even f then f else f + 1)"

definition binary_exponent :: "rat \<Rightarrow> int" where
  "binary_exponent x =
     (let e = bitlen (fst (quotient_of x)) - bitlen (snd (quotient_of x))
      in if x < power_int 2 e then e - 1 else e)"

definition float64 :: "rat \<Rightarrow> rat" where
  "float64 x =
     (if x = 0 then 0
      else let e = binary_exponent \<bar>x\<bar>;
               m = round_half_even (x * power_int 2 (52 - e))
           in of_int m * power_int 2 (e - 52))"

definition API_KEY_COOKIE_NAME :: string where
  "API_KEY_COOKIE_NAME = ''tiled_api_key''"

text \<open>
  Every exception the module can raise: \<^verbatim>\<open>HTTPException(status_code, detail, headers)\<close>,
  and the two built-in exceptions of a subscript that misses (\<^verbatim>\<open>payload["iat"]\<close>,
  \<^verbatim>\<open>settings.secret_keys[0]\<close>).
\<close>

datatype error =
    HTTPException nat string "(string \<times> string) list"
  | KeyError string
  | IndexError

text \<open>
  The claims dictionary of a token. The module reads and writes the keys
  \<^verbatim>\<open>sub\<close>, \<^verbatim>\<open>type\<close>, \<^verbatim>\<open>exp\<close>, \<^verbatim>\<open>iat\<close>, \<^verbatim>\<open>sid\<close> and \<^verbatim>\<open>sct\<close>; a key that is not in the
  dictionary is \<open>None\<close>.
\<close>

record payload =
  sub_claim :: "string option"
  type_claim :: "string option"
  exp_claim :: "instant option"
  iat_claim :: "instant option"
  sid_claim :: "int option"
  sct_claim :: "instant option"

definition empty_payload :: payload where
  "empty_payload = \<lparr>sub_claim = None, type_claim = None, exp_claim = None,
     iat_claim = None, sid_claim = None, sct_claim = None\<rparr>"

text \<open>
  The \<^verbatim>\<open>jose.jwt\<close> codec with the one algorithm HS256, idealised: a token is either
  a claims dictionary together with the secret that signed it, or a string that is no
  signed token at all. A signature verifies under the signing secret and under no other.
\<close>

datatype token =
    JWS payload string
  | NotAToken string

datatype jwt_result =
    Payload payload
  | ExpiredSignatureError
  | JWTError

definition jwt_encode :: "payload \<Rightarrow> string \<Rightarrow> token" where
  "jwt_encode claims secret_key = JWS claims secret_key"

text \<open>Whole seconds of an instant, as \<^verbatim>\<open>calendar.timegm\<close> gives them.\<close>

definition timegm :: "instant \<Rightarrow> int" where
  "timegm t = t div 1000000"

text \<open>
  \<^verbatim>\<open>jwt.decode\<close> verifies the signature first and raises \<^verbatim>\<open>JWTError\<close> when it does
  not verify; then it compares \<^verbatim>\<open>exp\<close>, if the claim is there, with the clock in
  whole seconds and raises \<^verbatim>\<open>ExpiredSignatureError\<close> when \<^verbatim>\<open>exp\<close> lies before it.
\<close>

definition jwt_decode :: "instant \<Rightarrow> token \<Rightarrow> string \<Rightarrow> jwt_result" where
  "jwt_decode utcnow tok secret_key =
     (case tok of
        NotAToken _ \<Rightarrow> JWTError
      | JWS claims k \<Rightarrow>
          if k \<noteq> secret_key then JWTError
          else (case exp_claim claims of
                  None \<Rightarrow> Payload claims
                | Some e \<Rightarrow>
                    if timegm e < timegm utcnow then ExpiredSignatureError
                    else Payload claims))"

text \<open>
  \<^verbatim>\<open>uuid.uuid4().int\<close>: sixteen random bytes as a 128-bit integer, with the variant
  bits set to RFC 4122 and the version bits set to 4, as the constructor of
  \<^verbatim>\<open>uuid.UUID\<close> does for \<^verbatim>\<open>version=4\<close>.
\<close>

definition uuid4_int :: "128 word \<Rightarrow> int" where
  "uuid4_int urandom =
     uint (((((urandom AND NOT (push_bit 48 0xc000)) OR push_bit 48 0x8000)
               AND NOT (push_bit 64 0xf000)) OR push_bit 76 4))"

record settings =
  secret_keys :: "string list"
  access_token_max_age :: timedelta
  refresh_token_max_age :: timedelta
  session_max_age :: "timedelta option"
  allow_anonymous_access :: bool
  single_user_api_key :: "string option"

text \<open>
  The authenticator capability, when there is one, maps a username and a password to
  the username it accepts, or to nothing.
\<close>

type_synonym authenticator = "string \<Rightarrow> string \<Rightarrow> string option"

section \<open>Token creation\<close>

definition create_access_token ::
  "instant \<Rightarrow> payload \<Rightarrow> timedelta \<Rightarrow> string \<Rightarrow> token" where
  "create_access_token utcnow data expires_delta secret_key =
     (let expire = utcnow + expires_delta;
          to_encode = data\<lparr>exp_claim := Some expire, type_claim := Some ''access''\<rparr>
      in jwt_encode to_encode secret_key)"

text \<open>
  \<^verbatim>\<open>session_id or uuid.uuid4().int\<close> takes the fresh identifier when the argument is
  \<^verbatim>\<open>None\<close> or zero; \<^verbatim>\<open>session_creation_time or issued_at_time\<close> takes the issue time
  only when the argument is \<^verbatim>\<open>None\<close>, a \<^verbatim>\<open>datetime\<close> being always true. The
  function uses the creation time only through its \<^verbatim>\<open>.timestamp()\<close>. Its one caller that
  passes a creation time passes \<^verbatim>\<open>datetime.fromtimestamp(t)\<close>, whose \<^verbatim>\<open>.timestamp()\<close> is
  \<open>t\<close> again in every zone; so the argument of the model is that \<open>t\<close>.
\<close>

definition create_refresh_token ::
  "(instant \<Rightarrow> timedelta) \<Rightarrow> instant \<Rightarrow> 128 word \<Rightarrow> payload \<Rightarrow> string \<Rightarrow> int option
     \<Rightarrow> instant option \<Rightarrow> token" where
  "create_refresh_token utcoffset utcnow urandom data secret_key session_id
       session_creation_time =
     (let issued_at_time = utcnow;
          session_id' = (case session_id of
                           None \<Rightarrow> uuid4_int urandom
                         | Some s \<Rightarrow> if s \<noteq> 0 then s else uuid4_int urandom);
          session_creation_timestamp =
            (case session_creation_time of
               None \<Rightarrow> timestamp utcoffset issued_at_time
             | Some t \<Rightarrow> t);
          to_encode = data\<lparr>type_claim := Some ''refresh'',
                            iat_claim := Some (timestamp utcoffset issued_at_time),
                            sid_claim := Some session_id',
                            sct_claim := Some session_creation_timestamp\<rparr>
      in jwt_encode to_encode secret_key)"

section \<open>Decoding\<close>

definition credentials_exception :: error where
  "credentials_exception =
     HTTPException 401 ''Could not validate credentials'' [(''WWW-Authenticate'', ''Bearer'')]"

text \<open>
  The \<^verbatim>\<open>for ... else\<close> loop over the secrets: the first payload leaves the loop, an
  expired signature raises at once, any other \<^verbatim>\<open>JWTError\<close> goes on to the next key,
  and the \<^verbatim>\<open>else\<close> branch runs when the list is used up. One reading of the clock
  stands for the readings of all the keys tried: only the signing secret gets as far
  as the expiry check.
\<close>

fun decode_keys :: "instant \<Rightarrow> token \<Rightarrow> string list \<Rightarrow> error + payload" where
  "decode_keys utcnow tok [] = Inl credentials_exception"
| "decode_keys utcnow tok (secret_key # rest) =
     (case jwt_decode utcnow tok secret_key of
        Payload p \<Rightarrow> Inr p
      | ExpiredSignatureError \<Rightarrow> Inl (HTTPException 401 ''Access token has expired.'' [])
      | JWTError \<Rightarrow> decode_keys utcnow tok rest)"

definition decode_token :: "instant \<Rightarrow> token \<Rightarrow> string list \<Rightarrow> string \<Rightarrow> error + payload" where
  "decode_token utcnow tok keys expected_type =
     (case decode_keys utcnow tok keys of
        Inl e \<Rightarrow> Inl e
      | Inr p \<Rightarrow>
          if type_claim p \<noteq> Some expected_type then Inl credentials_exception
          else Inr p)"

section \<open>Principal resolution\<close>

text \<open>
  The three channels are looked at in the order query, header, cookie. The first one
  that carries a value decides: the loop returns or raises there.
\<close>

fun check_api_keys :: "string option list \<Rightarrow> settings \<Rightarrow> error + bool" where
  "check_api_keys [] settings = Inr False"
| "check_api_keys (None # rest) settings = check_api_keys rest settings"
| "check_api_keys (Some api_key # rest) settings =
     (if Some api_key = single_user_api_key settings then Inr True
      else Inl (HTTPException 401 ''Invalid API key'' []))"

definition check_single_user_api_key ::
  "string option \<Rightarrow> string option \<Rightarrow> string option \<Rightarrow> settings \<Rightarrow> error + bool" where
  "check_single_user_api_key api_key_query api_key_header api_key_cookie settings =
     check_api_keys [api_key_query, api_key_header, api_key_cookie] settings"

text \<open>
  Modelled from the spec: the enumeration \<^verbatim>\<open>SpecialUsers\<close> of \<^verbatim>\<open>tiled/utils.py\<close>, which
  is not among the sources. The spec has the two sentinels \<^verbatim>\<open>admin\<close> and \<^verbatim>\<open>public\<close>
  as members of a closed, tagged set that is kept apart from username strings.
\<close>

datatype SpecialUsers = admin | public

text \<open>
  What \<^verbatim>\<open>get_current_user\<close> returns: a member of \<^verbatim>\<open>SpecialUsers\<close>, or the result of
  \<^verbatim>\<open>payload.get("sub")\<close>, which is a plain string, or \<open>None\<close> when the token has no
  subject. The two constructors say which kind of object is returned; the function
  itself wraps the string in nothing. Equality of two values of this type is not
  Python's \<^verbatim>\<open>==\<close> between a member and a string, which the declaration of
  \<^verbatim>\<open>SpecialUsers\<close> decides.
\<close>

datatype principal =
    Sentinel SpecialUsers
  | Subject "string option"

text \<open>
  Of the request, the function reads the cookies and appends to
  \<^verbatim>\<open>request.state.cookies_to_set\<close>; the request is returned with the new list.
\<close>

record request =
  cookies :: "(string \<times> string) list"
  cookies_to_set :: "(string \<times> string option) list"

definition get_current_user ::
  "instant \<Rightarrow> request \<Rightarrow> token option \<Rightarrow> bool \<Rightarrow> settings \<Rightarrow> authenticator option
     \<Rightarrow> error + (principal \<times> request)" where
  "get_current_user utcnow request tok has_single_user_api_key settings authenticator =
     (if authenticator = None \<and> has_single_user_api_key then
        (if map_of (cookies request) API_KEY_COOKIE_NAME \<noteq> single_user_api_key settings
         then Inr (Sentinel admin,
                   request\<lparr>cookies_to_set := cookies_to_set request @
                      [(API_KEY_COOKIE_NAME, single_user_api_key settings)]\<rparr>)
         else Inr (Sentinel admin, request))
      else (case tok of
              None \<Rightarrow>
                if allow_anonymous_access settings then Inr (Sentinel public, request)
                else Inl (HTTPException 401 ''Not authenticated'' [])
            | Some t \<Rightarrow>
                (case decode_token utcnow t (secret_keys settings) ''access'' of
                   Inl e \<Rightarrow> Inl e
                 | Inr p \<Rightarrow> Inr (Subject (sub_claim p), request))))"

text \<open>
  The schemes \<^verbatim>\<open>APIKeyQuery\<close>, \<^verbatim>\<open>APIKeyHeader\<close> and \<^verbatim>\<open>APIKeyCookie\<close>, made with
  \<^verbatim>\<open>auto_error=False\<close>, hand over \<open>None\<close> when the request has no value for their
  name and also when the value is the empty string.
\<close>

definition api_key_scheme :: "string option \<Rightarrow> string option" where
  "api_key_scheme v =
     (case v of None \<Rightarrow> None | Some s \<Rightarrow> if s = [] then None else Some s)"

text \<open>
  A protected request: the framework resolves the dependency
  \<^verbatim>\<open>check_single_user_api_key\<close> on what the three schemes hand over for the query
  parameter, the header and \<^verbatim>\<open>request.cookies.get("tiled_api_key")\<close>, and hands its
  result to \<^verbatim>\<open>get_current_user\<close>; an exception of the dependency ends the request.
\<close>

definition current_user_dependency ::
  "instant \<Rightarrow> request \<Rightarrow> string option \<Rightarrow> string option \<Rightarrow> token option \<Rightarrow> settings
     \<Rightarrow> authenticator option \<Rightarrow> error + (principal \<times> request)" where
  "current_user_dependency utcnow request api_key_query api_key_header tok settings authenticator =
     (case check_single_user_api_key (api_key_scheme api_key_query)
             (api_key_scheme api_key_header)
             (api_key_scheme (map_of (cookies request) API_KEY_COOKIE_NAME)) settings of
        Inl e \<Rightarrow> Inl e
      | Inr has_single_user_api_key \<Rightarrow>
          get_current_user utcnow request tok has_single_user_api_key settings authenticator)"

section \<open>Login and refresh\<close>

text \<open>
  What one request reads from the clock, from the local time zone of the process and
  from the random source.
\<close>

record readings =
  utcoffset :: "instant \<Rightarrow> timedelta"
  utcnow_decode :: instant
  utcnow_now :: instant
  utcnow_refresh :: instant
  utcnow_access :: instant
  urandom :: "128 word"

record AccessAndRefreshTokens =
  access_token :: token
  expires_in :: rat
  refresh_token :: token
  refresh_token_expires_in :: rat
  token_type :: string

text \<open>\<^verbatim>\<open>payload[key]\<close> and \<^verbatim>\<open>settings.secret_keys[0]\<close>, which raise when they miss.\<close>

definition getitem :: "string \<Rightarrow> 'a option \<Rightarrow> error + 'a" where
  "getitem key v = (case v of None \<Rightarrow> Inl (KeyError key) | Some x \<Rightarrow> Inr x)"

definition first_key :: "string list \<Rightarrow> error + string" where
  "first_key keys = (case keys of [] \<Rightarrow> Inl IndexError | k # _ \<Rightarrow> Inr k)"

text \<open>Sequencing: an exception of the first computation skips the rest.\<close>

definition raising :: "error + 'a \<Rightarrow> ('a \<Rightarrow> error + 'b) \<Rightarrow> error + 'b" where
  "raising m f = (case m of Inl e \<Rightarrow> Inl e | Inr x \<Rightarrow> f x)"

text \<open>\<^verbatim>\<open>d / UNIT_SECOND\<close>: the two microsecond counts, divided as Python divides integers.\<close>

definition seconds :: "timedelta \<Rightarrow> rat" where
  "seconds d = float64 (of_int d / of_int UNIT_SECOND)"

definition login_for_access_token ::
  "readings \<Rightarrow> string \<Rightarrow> string \<Rightarrow> authenticator option \<Rightarrow> settings
     \<Rightarrow> error + AccessAndRefreshTokens" where
  "login_for_access_token env form_username form_password authenticator settings =
     (case authenticator of
        None \<Rightarrow>
          Inl (HTTPException 404
                 (if allow_anonymous_access settings
                  then ''This is a public Tiled server with no login.''
                  else ''This is a single-user Tiled server. '' @
                       ''To authenticate, use the API key logged at server startup.'') [])
      | Some authenticate \<Rightarrow>
          (case authenticate form_username form_password of
             None \<Rightarrow>
               Inl (HTTPException 401 ''Incorrect username or password''
                      [(''WWW-Authenticate'', ''Bearer'')])
           | Some username \<Rightarrow>
               if username = [] then
                 Inl (HTTPException 401 ''Incorrect username or password''
                        [(''WWW-Authenticate'', ''Bearer'')])
               else
                 raising (first_key (secret_keys settings)) (\<lambda>key_a.
                 let access = create_access_token (utcnow_access env)
                       (empty_payload\<lparr>sub_claim := Some username\<rparr>)
                       (access_token_max_age settings) key_a in
                 raising (first_key (secret_keys settings)) (\<lambda>key_r.
                 let refreshed = create_refresh_token (utcoffset env) (utcnow_refresh env)
                       (urandom env)
                       (empty_payload\<lparr>sub_claim := Some username\<rparr>) key_r None None in
                 Inr \<lparr>access_token = access,
                      expires_in = seconds (access_token_max_age settings),
                      refresh_token = refreshed,
                      refresh_token_expires_in = seconds (refresh_token_max_age settings),
                      token_type = ''bearer''\<rparr>))))"

definition session_expired :: error where
  "session_expired = HTTPException 401 ''Session has expired. Please re-authenticate.'' []"

text \<open>
  \<^verbatim>\<open>now\<close> is \<^verbatim>\<open>datetime.utcnow().timestamp()\<close>, and
  \<^verbatim>\<open>timedelta(seconds=now - payload["iat"])\<close> is the difference of the two timestamps.
  The new token gets \<^verbatim>\<open>datetime.fromtimestamp(payload["sct"])\<close> as its creation time. The
  arguments of the two creation calls are evaluated in the order they are written.
\<close>

definition refresh :: "readings \<Rightarrow> token \<Rightarrow> settings \<Rightarrow> error + AccessAndRefreshTokens" where
  "refresh env tok settings =
     raising (decode_token (utcnow_decode env) tok (secret_keys settings) ''refresh'') (\<lambda>payload.
     let now = timestamp (utcoffset env) (utcnow_now env) in
     raising (getitem ''iat'' (iat_claim payload)) (\<lambda>iat.
     if now - iat > refresh_token_max_age settings then Inl session_expired
     else
     raising (case session_max_age settings of
                None \<Rightarrow> Inr ()
              | Some max_age \<Rightarrow>
                  raising (getitem ''sct'' (sct_claim payload)) (\<lambda>sct.
                  if now - sct > max_age then Inl session_expired else Inr ())) (\<lambda>_.
     raising (getitem ''sub'' (sub_claim payload)) (\<lambda>sub.
     raising (getitem ''sid'' (sid_claim payload)) (\<lambda>sid.
     raising (getitem ''sct'' (sct_claim payload)) (\<lambda>sct.
     raising (first_key (secret_keys settings)) (\<lambda>key_r.
     let new_refresh_token = create_refresh_token (utcoffset env) (utcnow_refresh env)
           (urandom env)
           (empty_payload\<lparr>sub_claim := Some sub\<rparr>) key_r (Some sid) (Some sct) in
     raising (getitem ''sub'' (sub_claim payload)) (\<lambda>sub'.
     raising (first_key (secret_keys settings)) (\<lambda>key_a.
     let access = create_access_token (utcnow_access env)
           (empty_payload\<lparr>sub_claim := Some sub'\<rparr>) (access_token_max_age settings) key_a in
     Inr \<lparr>access_token = access,
          expires_in = seconds (access_token_max_age settings),
          refresh_token = new_refresh_token,
          refresh_token_expires_in = seconds (refresh_token_max_age settings),
          token_type = ''bearer''\<rparr>)))))))))"

text \<open>
  A client that refreshes again and again: each call presents the refresh token of the
  previous response. The result lists the refresh tokens of the successive responses,
  and is an error as soon as one call fails.
\<close>

fun refresh_chain :: "settings \<Rightarrow> token \<Rightarrow> readings list \<Rightarrow> error + token list" where
  "refresh_chain settings tok [] = Inr []"
| "refresh_chain settings tok (env # envs) =
     raising (refresh env tok settings) (\<lambda>response.
     raising (refresh_chain settings (refresh_token response) envs) (\<lambda>toks.
     Inr (refresh_token response # toks)))"

section \<open>Properties of decoding\<close>













section \<open>Properties of principal resolution\<close>

text \<open>
  C5: of the values presented by query parameter, header and cookie, the first one that
  is not absent, in that order, is the one compared with the configured single-user
  API key. When it is equal the check returns true; when it is not, the check fails
  with 401 "Invalid API key", whatever the later channels carry; when all three are
  absent the check returns false and raises nothing.
\<close>

theorem check_single_user_api_key_priority:
  "check_single_user_api_key api_key_query api_key_header api_key_cookie settings =
     (case api_key_query of
        Some v \<Rightarrow> if Some v = single_user_api_key settings then Inr True
                  else Inl (HTTPException 401 ''Invalid API key'' [])
      | None \<Rightarrow>
          (case api_key_header of
             Some v \<Rightarrow> if Some v = single_user_api_key settings then Inr True
                       else Inl (HTTPException 401 ''Invalid API key'' [])
           | None \<Rightarrow>
               (case api_key_cookie of
                  Some v \<Rightarrow> if Some v = single_user_api_key settings then Inr True
                            else Inl (HTTPException 401 ''Invalid API key'' [])
                | None \<Rightarrow> Inr False)))
   \<and> (api_key_query = Some v \<and> Some v \<noteq> single_user_api_key settings \<longrightarrow>
        check_single_user_api_key api_key_query api_key_header api_key_cookie settings =
          Inl (HTTPException 401 ''Invalid API key'' []))
   \<and> (api_key_query = None \<and> api_key_header = Some v \<and>
        Some v \<noteq> single_user_api_key settings \<longrightarrow>
        check_single_user_api_key api_key_query api_key_header api_key_cookie settings =
          Inl (HTTPException 401 ''Invalid API key'' []))
   \<and> (api_key_query = None \<and> api_key_header = None \<and> api_key_cookie = None \<longrightarrow>
        check_single_user_api_key api_key_query api_key_header api_key_cookie settings =
          Inr False)"
  by (simp add: check_single_user_api_key_def split: option.splits)

theorem check_single_user_api_key_priority_witness:
  "check_single_user_api_key (Some ''wrong'') (Some ''secret'') (Some ''secret'')
      \<lparr>secret_keys = [''k''], access_token_max_age = 0, refresh_token_max_age = 0,
        session_max_age = None, allow_anonymous_access = False,
        single_user_api_key = Some ''secret''\<rparr> = Inl (HTTPException 401 ''Invalid API key'' [])
   \<and> check_single_user_api_key None (Some ''wrong'') (Some ''secret'')
      \<lparr>secret_keys = [''k''], access_token_max_age = 0, refresh_token_max_age = 0,
        session_max_age = None, allow_anonymous_access = False,
        single_user_api_key = Some ''secret''\<rparr> = Inl (HTTPException 401 ''Invalid API key'' [])
   \<and> check_single_user_api_key None None None
      \<lparr>secret_keys = [''k''], access_token_max_age = 0, refresh_token_max_age = 0,
        session_max_age = None, allow_anonymous_access = False,
        single_user_api_key = Some ''secret''\<rparr> = Inr False
   \<and> check_single_user_api_key None (Some ''secret'') (Some ''wrong'')
      \<lparr>secret_keys = [''k''], access_token_max_age = 0, refresh_token_max_age = 0,
        session_max_age = None, allow_anonymous_access = False,
        single_user_api_key = Some ''secret''\<rparr> = Inr True"
proof (intro conjI)
  let ?s = "\<lparr>secret_keys = [''k''], access_token_max_age = 0, refresh_token_max_age = 0,
        session_max_age = None, allow_anonymous_access = False,
        single_user_api_key = Some ''secret''\<rparr>"
  show "check_single_user_api_key (Some ''wrong'') (Some ''secret'') (Some ''secret'') ?s =
      Inl (HTTPException 401 ''Invalid API key'' [])"
    using check_single_user_api_key_priority [where api_key_query = "Some ''wrong''"
        and api_key_header = "Some ''secret''" and api_key_cookie = "Some ''secret''"
        and v = "''wrong''" and settings = ?s, THEN conjunct2, THEN conjunct1]
    by simp
  show "check_single_user_api_key None (Some ''wrong'') (Some ''secret'') ?s =
      Inl (HTTPException 401 ''Invalid API key'' [])"
    using check_single_user_api_key_priority [where api_key_query = None
        and api_key_header = "Some ''wrong''" and api_key_cookie = "Some ''secret''"
        and v = "''wrong''" and settings = ?s, THEN conjunct2, THEN conjunct2, THEN conjunct1]
    by simp
  show "check_single_user_api_key None None None ?s = Inr False"
    using check_single_user_api_key_priority [where api_key_query = None
        and api_key_header = None and api_key_cookie = None
        and settings = ?s, THEN conjunct2, THEN conjunct2, THEN conjunct2]
    by simp
  show "check_single_user_api_key None (Some ''secret'') (Some ''wrong'') ?s = Inr True"
    using check_single_user_api_key_priority [where api_key_query = None
        and api_key_header = "Some ''secret''" and api_key_cookie = "Some ''wrong''"
        and settings = ?s, THEN conjunct1]
    by simp
qed

text \<open>
  A request that carries a wrong key in the query parameter and no bearer token, sent
  to a server without authenticator that allows anonymous access, is rejected with
  401 "Invalid API key"; it is not resolved to the public sentinel.
\<close>

theorem current_user_cases_counterexample:
  "current_user_dependency 0 \<lparr>cookies = [], cookies_to_set = []\<rparr> (Some ''wrong'') None None
      \<lparr>secret_keys = [''k''], access_token_max_age = 900000000,
        refresh_token_max_age = 604800000000, session_max_age = None,
        allow_anonymous_access = True, single_user_api_key = Some ''secret''\<rparr> None =
     Inl (HTTPException 401 ''Invalid API key'' [])
   \<and> current_user_dependency 0 \<lparr>cookies = [], cookies_to_set = []\<rparr> (Some ''wrong'') None None
      \<lparr>secret_keys = [''k''], access_token_max_age = 900000000,
        refresh_token_max_age = 604800000000, session_max_age = None,
        allow_anonymous_access = True, single_user_api_key = Some ''secret''\<rparr> None \<noteq>
     Inr (Sentinel public, \<lparr>cookies = [], cookies_to_set = []\<rparr>)"
  by (simp add: current_user_dependency_def check_single_user_api_key_def api_key_scheme_def)

text \<open>
  C7 (amended): for every protected request that the API-key check does not reject,
  that is, on which no channel hands over a value or the first channel that hands one
  over carries the configured key, the principal is decided by this case split, where
  \<open>has_single_user_api_key\<close> is what the check returned. With no authenticator and a
  valid key presented, the principal is the admin sentinel, and the API-key cookie is
  scheduled to be set when the key did not arrive by the cookie, that is, when the
  cookie of the request is not the configured key.
  Otherwise, with no bearer token, the principal is the public sentinel when anonymous
  access is allowed and the request fails with 401 "Not authenticated" when it is not.
  Otherwise the bearer token is decoded as an access token, and the \<^verbatim>\<open>sub\<close> claim of
  the decoded payload is the principal.
\<close>

theorem current_user_cases:
  "check_single_user_api_key (api_key_scheme api_key_query) (api_key_scheme api_key_header)
      (api_key_scheme (map_of (cookies request) API_KEY_COOKIE_NAME)) settings =
     Inr has_single_user_api_key \<longrightarrow>
   current_user_dependency now request api_key_query api_key_header tok settings authenticator =
     get_current_user now request tok has_single_user_api_key settings authenticator
   \<and> (authenticator = None \<and> has_single_user_api_key \<longrightarrow>
      get_current_user now request tok has_single_user_api_key settings authenticator =
        Inr (Sentinel admin,
             if map_of (cookies request) API_KEY_COOKIE_NAME = single_user_api_key settings
             then request
             else request\<lparr>cookies_to_set := cookies_to_set request @
                    [(API_KEY_COOKIE_NAME, single_user_api_key settings)]\<rparr>))
   \<and> (\<not> (authenticator = None \<and> has_single_user_api_key) \<and> tok = None \<and>
        allow_anonymous_access settings \<longrightarrow>
      get_current_user now request tok has_single_user_api_key settings authenticator =
        Inr (Sentinel public, request))
   \<and> (\<not> (authenticator = None \<and> has_single_user_api_key) \<and> tok = None \<and>
        \<not> allow_anonymous_access settings \<longrightarrow>
      get_current_user now request tok has_single_user_api_key settings authenticator =
        Inl (HTTPException 401 ''Not authenticated'' []))
   \<and> (\<not> (authenticator = None \<and> has_single_user_api_key) \<and> tok = Some t \<longrightarrow>
      get_current_user now request tok has_single_user_api_key settings authenticator =
        (case decode_token now t (secret_keys settings) ''access'' of
           Inl e \<Rightarrow> Inl e
         | Inr p \<Rightarrow> Inr (Subject (sub_claim p), request)))"
  by (simp add: get_current_user_def current_user_dependency_def)

theorem current_user_cases_witness:
  "current_user_dependency 0 \<lparr>cookies = [], cookies_to_set = []\<rparr> (Some ''secret'') None None
      \<lparr>secret_keys = [''k''], access_token_max_age = 900000000,
        refresh_token_max_age = 604800000000, session_max_age = None,
        allow_anonymous_access = False, single_user_api_key = Some ''secret''\<rparr> None =
     Inr (Sentinel admin,
          \<lparr>cookies = [], cookies_to_set = [(API_KEY_COOKIE_NAME, Some ''secret'')]\<rparr>)
   \<and> current_user_dependency 0
      \<lparr>cookies = [(''tiled_api_key'', ''secret'')], cookies_to_set = []\<rparr> None None None
      \<lparr>secret_keys = [''k''], access_token_max_age = 900000000,
        refresh_token_max_age = 604800000000, session_max_age = None,
        allow_anonymous_access = False, single_user_api_key = Some ''secret''\<rparr> None =
     Inr (Sentinel admin, \<lparr>cookies = [(''tiled_api_key'', ''secret'')], cookies_to_set = []\<rparr>)
   \<and> current_user_dependency 0 \<lparr>cookies = [], cookies_to_set = []\<rparr> None None None
      \<lparr>secret_keys = [''k''], access_token_max_age = 900000000,
        refresh_token_max_age = 604800000000, session_max_age = None,
        allow_anonymous_access = True, single_user_api_key = Some ''secret''\<rparr> None =
     Inr (Sentinel public, \<lparr>cookies = [], cookies_to_set = []\<rparr>)
   \<and> current_user_dependency 0 \<lparr>cookies = [], cookies_to_set = []\<rparr> None None None
      \<lparr>secret_keys = [''k''], access_token_max_age = 900000000,
        refresh_token_max_age = 604800000000, session_max_age = None,
        allow_anonymous_access = False, single_user_api_key = Some ''secret''\<rparr> None =
     Inl (HTTPException 401 ''Not authenticated'' [])
   \<and> current_user_dependency 0 \<lparr>cookies = [], cookies_to_set = []\<rparr> None None
      (Some (create_access_token 0 (empty_payload\<lparr>sub_claim := Some ''alice''\<rparr>) 900000000 ''k''))
      \<lparr>secret_keys = [''k''], access_token_max_age = 900000000,
        refresh_token_max_age = 604800000000, session_max_age = None,
        allow_anonymous_access = False, single_user_api_key = Some ''secret''\<rparr> None =
     Inr (Subject (Some ''alice''), \<lparr>cookies = [], cookies_to_set = []\<rparr>)
   \<and> current_user_dependency 0
      \<lparr>cookies = [(''tiled_api_key'', [])], cookies_to_set = []\<rparr> None None None
      \<lparr>secret_keys = [''k''], access_token_max_age = 900000000,
        refresh_token_max_age = 604800000000, session_max_age = None,
        allow_anonymous_access = True, single_user_api_key = Some ''secret''\<rparr> None =
     Inr (Sentinel public, \<lparr>cookies = [(''tiled_api_key'', [])], cookies_to_set = []\<rparr>)"
proof (intro conjI)
  let ?s = "\<lambda>anon. \<lparr>secret_keys = [''k''], access_token_max_age = 900000000,
        refresh_token_max_age = 604800000000, session_max_age = None,
        allow_anonymous_access = anon, single_user_api_key = Some ''secret''\<rparr>"
  let ?r = "\<lparr>cookies = [], cookies_to_set = []\<rparr>"
  let ?rc = "\<lparr>cookies = [(''tiled_api_key'', ''secret'')], cookies_to_set = []\<rparr>"
  let ?t = "create_access_token 0 (empty_payload\<lparr>sub_claim := Some ''alice''\<rparr>) 900000000 ''k''"
  show "current_user_dependency 0 ?r (Some ''secret'') None None (?s False) None =
     Inr (Sentinel admin,
          \<lparr>cookies = [], cookies_to_set = [(API_KEY_COOKIE_NAME, Some ''secret'')]\<rparr>)"
    using current_user_cases [where api_key_query = "Some ''secret''" and api_key_header = None
        and request = ?r and settings = "?s False" and has_single_user_api_key = True
        and now = 0 and tok = None and authenticator = None]
    by (simp add: check_single_user_api_key_def api_key_scheme_def)
  show "current_user_dependency 0 ?rc None None None (?s False) None = Inr (Sentinel admin, ?rc)"
    using current_user_cases [where api_key_query = None and api_key_header = None
        and request = ?rc and settings = "?s False" and has_single_user_api_key = True
        and now = 0 and tok = None and authenticator = None]
    by (simp add: check_single_user_api_key_def api_key_scheme_def API_KEY_COOKIE_NAME_def)
  show "current_user_dependency 0 ?r None None None (?s True) None = Inr (Sentinel public, ?r)"
    using current_user_cases [where api_key_query = None and api_key_header = None
        and request = ?r and settings = "?s True" and has_single_user_api_key = False
        and now = 0 and tok = None and authenticator = None]
    by (simp add: check_single_user_api_key_def api_key_scheme_def)
  show "current_user_dependency 0 ?r None None None (?s False) None =
      Inl (HTTPException 401 ''Not authenticated'' [])"
    using current_user_cases [where api_key_query = None and api_key_header = None
        and request = ?r and settings = "?s False" and has_single_user_api_key = False
        and now = 0 and tok = None and authenticator = None]
    by (simp add: check_single_user_api_key_def api_key_scheme_def)
  show "current_user_dependency 0 ?r None None (Some ?t) (?s False) None =
      Inr (Subject (Some ''alice''), ?r)"
    using current_user_cases [where api_key_query = None and api_key_header = None
        and request = ?r and settings = "?s False" and has_single_user_api_key = False
        and now = 0 and tok = "Some ?t" and t = ?t and authenticator = None]
    by (simp add: check_single_user_api_key_def api_key_scheme_def create_access_token_def
          jwt_encode_def decode_token_def jwt_decode_def timegm_def empty_payload_def)
  show "current_user_dependency 0
      \<lparr>cookies = [(''tiled_api_key'', [])], cookies_to_set = []\<rparr> None None None (?s True)
      None =
      Inr (Sentinel public, \<lparr>cookies = [(''tiled_api_key'', [])], cookies_to_set = []\<rparr>)"
    using current_user_cases [where api_key_query = None and api_key_header = None
        and request = "\<lparr>cookies = [(''tiled_api_key'', [])], cookies_to_set = []\<rparr>"
        and settings = "?s True" and has_single_user_api_key = False
        and now = 0 and tok = None and authenticator = None]
    by (simp add: check_single_user_api_key_def api_key_scheme_def API_KEY_COOKIE_NAME_def)
qed




text \<open>
  A request that carries the configured key in the query parameter and another value
  in the header is not rejected: only the query parameter is looked at.
\<close>

theorem first_api_key_mismatch_rejected_counterexample:
  "Some ''wrong'' \<noteq> single_user_api_key
      \<lparr>secret_keys = [''k''], access_token_max_age = 900000000,
        refresh_token_max_age = 604800000000, session_max_age = None,
        allow_anonymous_access = False, single_user_api_key = Some ''secret''\<rparr>
   \<and> current_user_dependency 0 \<lparr>cookies = [], cookies_to_set = []\<rparr>
      (Some ''secret'') (Some ''wrong'') None
      \<lparr>secret_keys = [''k''], access_token_max_age = 900000000,
        refresh_token_max_age = 604800000000, session_max_age = None,
        allow_anonymous_access = False, single_user_api_key = Some ''secret''\<rparr> None =
     Inr (Sentinel admin,
          \<lparr>cookies = [], cookies_to_set = [(''tiled_api_key'', Some ''secret'')]\<rparr>)
   \<and> current_user_dependency 0 \<lparr>cookies = [], cookies_to_set = []\<rparr>
      (Some ''secret'') (Some ''wrong'') None
      \<lparr>secret_keys = [''k''], access_token_max_age = 900000000,
        refresh_token_max_age = 604800000000, session_max_age = None,
        allow_anonymous_access = False, single_user_api_key = Some ''secret''\<rparr> None \<noteq>
     Inl (HTTPException 401 ''Invalid API key'' [])"
  by (simp add: current_user_dependency_def check_single_user_api_key_def api_key_scheme_def
        get_current_user_def API_KEY_COOKIE_NAME_def)

text \<open>
  C9 (amended): for every protected request in which the first channel that carries a
  value other than the empty string, in the order query, header, cookie, carries a
  value that is not the configured single-user key, the request is rejected with
  401 "Invalid API key", with or without an authenticator and whatever the bearer
  token is. A channel whose value is the empty string counts as absent.
\<close>

theorem first_api_key_mismatch_rejected:
  "(api_key_scheme api_key_query = Some v \<or>
      (api_key_scheme api_key_query = None \<and> api_key_scheme api_key_header = Some v) \<or>
      (api_key_scheme api_key_query = None \<and> api_key_scheme api_key_header = None \<and>
         api_key_scheme (map_of (cookies request) API_KEY_COOKIE_NAME) = Some v)) \<and>
     Some v \<noteq> single_user_api_key settings \<longrightarrow>
     current_user_dependency now request api_key_query api_key_header tok settings authenticator =
       Inl (HTTPException 401 ''Invalid API key'' [])
     \<and> v \<noteq> []"
  by (auto simp: current_user_dependency_def check_single_user_api_key_def api_key_scheme_def
        split: option.splits if_splits)

theorem first_api_key_mismatch_rejected_witness:
  "current_user_dependency 0 \<lparr>cookies = [], cookies_to_set = []\<rparr>
      (Some ''wrong'') (Some ''secret'')
      (Some (create_access_token 0 (empty_payload\<lparr>sub_claim := Some ''alice''\<rparr>) 900000000 ''k''))
      \<lparr>secret_keys = [''k''], access_token_max_age = 900000000,
        refresh_token_max_age = 604800000000, session_max_age = None,
        allow_anonymous_access = True, single_user_api_key = Some ''secret''\<rparr>
      (Some (\<lambda>u p. Some u)) =
     Inl (HTTPException 401 ''Invalid API key'' [])
   \<and> current_user_dependency 0 \<lparr>cookies = [], cookies_to_set = []\<rparr>
      (Some []) (Some ''wrong'') None
      \<lparr>secret_keys = [''k''], access_token_max_age = 900000000,
        refresh_token_max_age = 604800000000, session_max_age = None,
        allow_anonymous_access = True, single_user_api_key = Some ''secret''\<rparr> None =
     Inl (HTTPException 401 ''Invalid API key'' [])
   \<and> current_user_dependency 0
      \<lparr>cookies = [(''tiled_api_key'', ''stale'')], cookies_to_set = []\<rparr> None None None
      \<lparr>secret_keys = [''k''], access_token_max_age = 900000000,
        refresh_token_max_age = 604800000000, session_max_age = None,
        allow_anonymous_access = True, single_user_api_key = Some ''secret''\<rparr> None =
     Inl (HTTPException 401 ''Invalid API key'' [])"
proof (intro conjI)
  let ?s = "\<lparr>secret_keys = [''k''], access_token_max_age = 900000000,
        refresh_token_max_age = 604800000000, session_max_age = None,
        allow_anonymous_access = True, single_user_api_key = Some ''secret''\<rparr>"
  let ?t = "create_access_token 0 (empty_payload\<lparr>sub_claim := Some ''alice''\<rparr>) 900000000 ''k''"
  show "current_user_dependency 0 \<lparr>cookies = [], cookies_to_set = []\<rparr>
      (Some ''wrong'') (Some ''secret'') (Some ?t) ?s (Some (\<lambda>u p. Some u)) =
     Inl (HTTPException 401 ''Invalid API key'' [])"
    using first_api_key_mismatch_rejected [where api_key_query = "Some ''wrong''"
        and api_key_header = "Some ''secret''" and v = "''wrong''" and settings = ?s
        and request = "\<lparr>cookies = [], cookies_to_set = []\<rparr>" and now = 0 and tok = "Some ?t"
        and authenticator = "Some (\<lambda>u p. Some u)"]
    by (simp add: api_key_scheme_def)
  show "current_user_dependency 0 \<lparr>cookies = [], cookies_to_set = []\<rparr>
      (Some []) (Some ''wrong'') None ?s None =
     Inl (HTTPException 401 ''Invalid API key'' [])"
    using first_api_key_mismatch_rejected [where api_key_query = "Some []"
        and api_key_header = "Some ''wrong''" and v = "''wrong''" and settings = ?s
        and request = "\<lparr>cookies = [], cookies_to_set = []\<rparr>" and now = 0 and tok = None
        and authenticator = None]
    by (simp add: api_key_scheme_def)
  show "current_user_dependency 0
      \<lparr>cookies = [(''tiled_api_key'', ''stale'')], cookies_to_set = []\<rparr> None None None ?s None =
     Inl (HTTPException 401 ''Invalid API key'' [])"
    using first_api_key_mismatch_rejected [where api_key_query = None
        and api_key_header = None and v = "''stale''" and settings = ?s
        and request = "\<lparr>cookies = [(''tiled_api_key'', ''stale'')], cookies_to_set = []\<rparr>"
        and now = 0 and tok = None and authenticator = None]
    by (simp add: api_key_scheme_def API_KEY_COOKIE_NAME_def)
qed

text \<open>
  C10: with an authenticator configured, \<^verbatim>\<open>get_current_user\<close> resolves the principal
  from the bearer token or the anonymous-access policy alone; no request resolves to
  the admin sentinel; and a request whose API-key check succeeded is resolved as if
  no key had been presented.
\<close>

theorem authenticator_disables_admin:
  "authenticator = Some a \<longrightarrow>
     get_current_user now request tok has_single_user_api_key settings authenticator =
       (case tok of
          None \<Rightarrow> if allow_anonymous_access settings then Inr (Sentinel public, request)
                  else Inl (HTTPException 401 ''Not authenticated'' [])
        | Some t \<Rightarrow>
            (case decode_token now t (secret_keys settings) ''access'' of
               Inl e \<Rightarrow> Inl e
             | Inr p \<Rightarrow> Inr (Subject (sub_claim p), request)))
     \<and> current_user_dependency now request api_key_query api_key_header tok settings
           authenticator \<noteq> Inr (Sentinel admin, request')
     \<and> (check_single_user_api_key (api_key_scheme api_key_query)
           (api_key_scheme api_key_header)
           (api_key_scheme (map_of (cookies request) API_KEY_COOKIE_NAME)) settings =
           Inr True \<longrightarrow>
         current_user_dependency now request api_key_query api_key_header tok settings
             authenticator =
           get_current_user now request tok False settings authenticator)"
  by (auto simp: get_current_user_def current_user_dependency_def
        split: option.splits sum.splits)

theorem authenticator_disables_admin_witness:
  "current_user_dependency 0 \<lparr>cookies = [], cookies_to_set = []\<rparr> (Some ''secret'') None None
      \<lparr>secret_keys = [''k''], access_token_max_age = 900000000,
        refresh_token_max_age = 604800000000, session_max_age = None,
        allow_anonymous_access = True, single_user_api_key = Some ''secret''\<rparr>
      (Some (\<lambda>u p. Some u)) =
     Inr (Sentinel public, \<lparr>cookies = [], cookies_to_set = []\<rparr>)
   \<and> current_user_dependency 0 \<lparr>cookies = [], cookies_to_set = []\<rparr> (Some ''secret'') None None
      \<lparr>secret_keys = [''k''], access_token_max_age = 900000000,
        refresh_token_max_age = 604800000000, session_max_age = None,
        allow_anonymous_access = True, single_user_api_key = Some ''secret''\<rparr>
      (Some (\<lambda>u p. Some u)) \<noteq>
     Inr (Sentinel admin,
          \<lparr>cookies = [], cookies_to_set = [(''tiled_api_key'', Some ''secret'')]\<rparr>)"
proof -
  let ?s = "\<lparr>secret_keys = [''k''], access_token_max_age = 900000000,
        refresh_token_max_age = 604800000000, session_max_age = None,
        allow_anonymous_access = True, single_user_api_key = Some ''secret''\<rparr>"
  let ?r = "\<lparr>cookies = [], cookies_to_set = []\<rparr>"
  have key: "check_single_user_api_key (api_key_scheme (Some ''secret'')) (api_key_scheme None)
      (api_key_scheme (map_of (cookies ?r) API_KEY_COOKIE_NAME)) ?s = Inr True"
    by (simp add: check_single_user_api_key_def api_key_scheme_def)
  note T = authenticator_disables_admin [where authenticator = "Some (\<lambda>u p. Some u)"
      and a = "\<lambda>u p. Some u" and now = 0 and request = ?r and tok = None and settings = ?s
      and api_key_query = "Some ''secret''" and api_key_header = None
      and request' = "\<lparr>cookies = [], cookies_to_set = [(''tiled_api_key'', Some ''secret'')]\<rparr>"]
  from T [where has_single_user_api_key = False] key show ?thesis
    by simp
qed

section \<open>Properties of login and refresh\<close>

lemma round_half_even_error: "\<bar>of_int (round_half_even y) - y\<bar> \<le> 1 / 2"
proof -
  have "of_int \<lfloor>y\<rfloor> \<le> y" and "y < of_int \<lfloor>y\<rfloor> + 1"
    by linarith+
  then show ?thesis
    by (auto simp: round_half_even_def Let_def)
qed

lemma bitlen_lower: "0 < p \<Longrightarrow> power_int 2 (bitlen p - 1) \<le> (of_int p :: rat)"
proof -
  assume p: "0 < p"
  then have "(2::int) ^ nat (bitlen p - 1) \<le> p"
    using bitlen_bounds by blast
  then have "(of_int ((2::int) ^ nat (bitlen p - 1)) :: rat) \<le> of_int p"
    by (simp only: of_int_le_iff)
  moreover have "1 \<le> bitlen p"
    using p by (simp add: bitlen_alt_def)
  ultimately show ?thesis
    by (simp add: power_int_def)
qed

lemma bitlen_upper: "0 < q \<Longrightarrow> (of_int q :: rat) \<le> power_int 2 (bitlen q)"
proof -
  assume q: "0 < q"
  then have "q < (2::int) ^ nat (bitlen q)"
    using bitlen_bounds by blast
  then have "(of_int q :: rat) < of_int ((2::int) ^ nat (bitlen q))"
    by (simp only: of_int_less_iff)
  then show ?thesis
    by (simp add: power_int_def bitlen_nonneg)
qed

lemma binary_exponent_lower:
  assumes "0 < x"
  shows "power_int 2 (binary_exponent x) \<le> x"
proof -
  obtain p q where pq: "quotient_of x = (p, q)"
    by (cases "quotient_of x")
  then have q: "0 < q" and x: "x = of_int p / of_int q"
    by (auto dest: quotient_of_denom_pos quotient_of_div)
  with assms have p: "0 < p"
    by (simp add: zero_less_divide_iff)
  let ?e = "bitlen p - bitlen q"
  show ?thesis
  proof (cases "x < power_int 2 ?e")
    case False
    then show ?thesis
      by (simp add: binary_exponent_def pq)
  next
    case True
    have "power_int 2 (?e - 1) = power_int (2::rat) (bitlen p - 1) / power_int 2 (bitlen q)"
      by (simp add: power_int_diff)
    also have "\<dots> \<le> of_int p / power_int 2 (bitlen q)"
      using bitlen_lower [OF p] by (simp add: divide_right_mono)
    also have "\<dots> \<le> of_int p / of_int q"
      using bitlen_upper [OF q] p q by (simp add: divide_left_mono)
    finally have "power_int 2 (?e - 1) \<le> x"
      by (simp only: x)
    moreover have "binary_exponent x = ?e - 1"
      using True by (simp add: binary_exponent_def pq)
    ultimately show ?thesis
      by (simp only:)
  qed
qed

lemma float64_error: "\<bar>float64 x - x\<bar> \<le> \<bar>x\<bar> / 2 ^ 53"
proof (cases "x = 0")
  case True
  then show ?thesis
    by (simp add: float64_def)
next
  case False
  let ?e = "binary_exponent \<bar>x\<bar>"
  let ?s = "power_int (2::rat) (52 - ?e)"
  let ?m = "round_half_even (x * ?s)"
  have s: "0 < ?s"
    by simp
  have inv: "power_int (2::rat) (?e - 52) = 1 / ?s"
    by (simp add: power_int_diff)
  have f: "float64 x = of_int ?m / ?s"
    using False by (simp add: float64_def Let_def inv)
  have "float64 x - x = (of_int ?m - x * ?s) / ?s"
    using s by (simp add: f diff_divide_distrib)
  then have "\<bar>float64 x - x\<bar> = \<bar>of_int ?m - x * ?s\<bar> / ?s"
    using s by (simp add: abs_divide)
  also have "\<dots> \<le> (1 / 2) / ?s"
    by (intro divide_right_mono round_half_even_error) simp
  also have "\<dots> = power_int 2 ?e / 2 ^ 53"
    by (simp add: power_int_diff)
  also have "\<dots> \<le> \<bar>x\<bar> / 2 ^ 53"
    using binary_exponent_lower [of "\<bar>x\<bar>"] False by (simp add: divide_right_mono)
  finally show ?thesis .
qed

lemma round_half_even_bound:
  assumes "\<bar>y\<bar> \<le> of_int N"
  shows "\<bar>round_half_even y\<bar> \<le> N"
proof -
  have f: "of_int \<lfloor>y\<rfloor> \<le> y" "y < of_int \<lfloor>y\<rfloor> + 1"
    by linarith+
  from assms have "- of_int N \<le> y" and "y \<le> of_int N"
    by linarith+
  then have lo: "- N \<le> \<lfloor>y\<rfloor>" and hi: "\<lfloor>y\<rfloor> \<le> N"
    by (simp_all add: le_floor_iff floor_le_iff)
  have "y - of_int \<lfloor>y\<rfloor> \<ge> 1 / 2 \<Longrightarrow> \<lfloor>y\<rfloor> + 1 \<le> N"
  proof -
    assume "y - of_int \<lfloor>y\<rfloor> \<ge> 1 / 2"
    then have "of_int \<lfloor>y\<rfloor> < y"
      by linarith
    with \<open>y \<le> of_int N\<close> have "(of_int \<lfloor>y\<rfloor> :: rat) < of_int N"
      by linarith
    then show ?thesis
      by simp
  qed
  with lo hi show ?thesis
    by (auto simp: round_half_even_def Let_def)
qed

lemma binary_exponent_upper:
  assumes "0 < x"
  shows "x < power_int 2 (binary_exponent x + 1)"
proof -
  obtain p q where pq: "quotient_of x = (p, q)"
    by (cases "quotient_of x")
  then have q: "0 < q" and x: "x = of_int p / of_int q"
    by (auto dest: quotient_of_denom_pos quotient_of_div)
  with assms have p: "0 < p"
    by (simp add: zero_less_divide_iff)
  let ?e = "bitlen p - bitlen q"
  show ?thesis
  proof (cases "x < power_int 2 ?e")
    case True
    then show ?thesis
      by (simp add: binary_exponent_def pq)
  next
    case False
    have "(of_int p :: rat) < power_int 2 (bitlen p)"
    proof -
      have "p < (2::int) ^ nat (bitlen p)"
        using bitlen_bounds [OF p] by blast
      then have "(of_int p :: rat) < of_int ((2::int) ^ nat (bitlen p))"
        by (simp only: of_int_less_iff)
      then show ?thesis
        by (simp add: power_int_def bitlen_nonneg)
    qed
    then have "of_int p / of_int q < power_int (2::rat) (bitlen p) / of_int q"
      using q by (simp add: divide_strict_right_mono)
    also have "\<dots> \<le> power_int 2 (bitlen p) / power_int 2 (bitlen q - 1)"
      using bitlen_lower [OF q] q by (intro divide_left_mono) simp_all
    also have "\<dots> = power_int 2 (?e + 1)"
      by (simp add: power_int_diff power_int_add)
    finally have "x < power_int 2 (?e + 1)"
      by (simp only: x)
    moreover have "binary_exponent x = ?e"
      using False by (simp add: binary_exponent_def pq)
    ultimately show ?thesis
      by (simp only:)
  qed
qed

lemma float64_is_double:
  "\<exists>m e. \<bar>m\<bar> \<le> 2 ^ 53 \<and> float64 x = of_int m * power_int 2 e"
proof (cases "x = 0")
  case True
  then have "\<bar>0::int\<bar> \<le> 2 ^ 53 \<and> float64 x = of_int 0 * power_int 2 0"
    by (simp add: float64_def)
  then show ?thesis
    by blast
next
  case False
  let ?e = "binary_exponent \<bar>x\<bar>"
  let ?s = "power_int (2::rat) (52 - ?e)"
  let ?m = "round_half_even (x * ?s)"
  have "\<bar>x\<bar> < power_int 2 (?e + 1)"
    using binary_exponent_upper [of "\<bar>x\<bar>"] False by simp
  then have "\<bar>x\<bar> * ?s \<le> power_int 2 (?e + 1) * ?s"
    by (intro mult_right_mono) simp_all
  also have "\<dots> = 2 ^ 53"
    by (simp add: power_int_add [symmetric])
  finally have "\<bar>x * ?s\<bar> \<le> of_int (2 ^ 53)"
    by (simp add: abs_mult)
  then have "\<bar>?m\<bar> \<le> 2 ^ 53"
    by (rule round_half_even_bound)
  moreover have "float64 x = of_int ?m * power_int 2 (?e - 52)"
    using False by (simp add: float64_def Let_def)
  ultimately show ?thesis
    by blast
qed

lemma seconds_is_double:
  "\<exists>m e. \<bar>m\<bar> \<le> 2 ^ 53 \<and> seconds d = of_int m * power_int 2 e"
  unfolding seconds_def by (rule float64_is_double)

lemma seconds_error:
  "\<bar>seconds d - of_int d / 1000000\<bar> \<le> \<bar>of_int d / 1000000\<bar> / 2 ^ 53"
  using float64_error [of "of_int d / 1000000"]
  by (simp add: seconds_def UNIT_SECOND_def)

lemma bit_variant_mask: "bit (push_bit 48 (0xc000 :: 128 word)) n \<longleftrightarrow> n = 62 \<or> n = 63"
proof -
  have "push_bit 48 (0xc000 :: 128 word) = 2 ^ 62 OR 2 ^ 63"
    by simp
  then show ?thesis
    by (simp only: bit_or_iff bit_exp_iff possible_bit_word) auto
qed

lemma bit_variant: "bit (push_bit 48 (0x8000 :: 128 word)) n \<longleftrightarrow> n = 63"
proof -
  have "push_bit 48 (0x8000 :: 128 word) = 2 ^ 63"
    by simp
  then show ?thesis
    by (simp only: bit_exp_iff possible_bit_word) auto
qed

lemma bit_version_mask:
  "bit (push_bit 64 (0xf000 :: 128 word)) n \<longleftrightarrow> n = 76 \<or> n = 77 \<or> n = 78 \<or> n = 79"
proof -
  have "push_bit 64 (0xf000 :: 128 word) = 2 ^ 76 OR 2 ^ 77 OR 2 ^ 78 OR 2 ^ 79"
    by simp
  then show ?thesis
    by (simp only: bit_or_iff bit_exp_iff possible_bit_word) auto
qed

lemma bit_version: "bit (push_bit 76 (4 :: 128 word)) n \<longleftrightarrow> n = 78"
proof -
  have "push_bit 76 (4 :: 128 word) = 2 ^ 78"
    by simp
  then show ?thesis
    by (simp only: bit_exp_iff possible_bit_word) auto
qed

lemma uuid4_int_bits:
  "bit (uuid4_int r) n =
     (if n = 63 \<or> n = 78 then True
      else if n = 62 \<or> n = 76 \<or> n = 77 \<or> n = 79 then False
      else bit r n)"
  unfolding uuid4_int_def
  by (simp only: bit_uint_iff bit_or_iff bit_and_iff bit_not_iff possible_bit_word
        bit_variant_mask bit_variant bit_version_mask bit_version)
     (auto dest: bit_imp_le_length)

lemma uuid4_int_nonzero: "uuid4_int r \<noteq> 0"
proof
  assume "uuid4_int r = 0"
  then have "\<not> bit (uuid4_int r) 78"
    by simp
  then show False
    by (simp add: uuid4_int_bits)
qed

lemma decode_keys_nonempty: "decode_keys now tok keys = Inr p \<Longrightarrow> keys \<noteq> []"
  by (cases keys) simp_all

lemma decode_token_nonempty: "decode_token now tok keys ty = Inr p \<Longrightarrow> keys \<noteq> []"
  by (auto simp: decode_token_def split: sum.splits if_splits dest: decode_keys_nonempty)

lemma refresh_wellformed:
  assumes "decode_token (utcnow_decode env) tok (secret_keys st) ''refresh'' = Inr p"
    and "iat_claim p = Some iat" and "sct_claim p = Some sct"
    and "sid_claim p = Some sid" and "sub_claim p = Some sub"
  shows "refresh env tok st =
    (if utcnow_now env - utcoffset env (utcnow_now env) - iat > refresh_token_max_age st
       then Inl session_expired
     else if (case session_max_age st of
                None \<Rightarrow> False
              | Some m \<Rightarrow> utcnow_now env - utcoffset env (utcnow_now env) - sct > m)
       then Inl session_expired
     else Inr \<lparr>access_token =
                 JWS \<lparr>sub_claim = Some sub, type_claim = Some ''access'',
                      exp_claim = Some (utcnow_access env + access_token_max_age st),
                      iat_claim = None, sid_claim = None, sct_claim = None\<rparr>
                   (hd (secret_keys st)),
               expires_in = seconds (access_token_max_age st),
               refresh_token =
                 JWS \<lparr>sub_claim = Some sub, type_claim = Some ''refresh'',
                      exp_claim = None,
                      iat_claim = Some (utcnow_refresh env - utcoffset env (utcnow_refresh env)),
                      sid_claim = Some (if sid \<noteq> 0 then sid else uuid4_int (urandom env)),
                      sct_claim = Some sct\<rparr>
                   (hd (secret_keys st)),
               refresh_token_expires_in = seconds (refresh_token_max_age st),
               token_type = ''bearer''\<rparr>)"
proof -
  from assms(1) obtain k ks where keys: "secret_keys st = k # ks"
    by (cases "secret_keys st") (auto dest: decode_token_nonempty)
  show ?thesis
    using assms
    by (simp add: refresh_def raising_def getitem_def first_key_def keys Let_def
          create_refresh_token_def create_access_token_def jwt_encode_def empty_payload_def
          timestamp_def split: option.splits)
qed

text \<open>
  C6: without an authenticator, login fails with status 404 and a message that depends
  on whether anonymous access is allowed. When the authenticator returns nothing (or
  an empty username), login fails with 401 "Incorrect username or password". When it
  returns a username and the key list is not empty, the response holds an access
  token for that username expiring at the instant of its creation plus the access
  token max age; a refresh token whose session identifier is drawn from the random
  bytes of this request and whose session creation time is its issue time; both
  encoded with the first key; the token type "bearer"; and the two max ages in
  seconds. The session identifier has the 122 bits of the random bytes outside the
  variant and version fields, and those six bits fixed. The seconds are a double, a
  mantissa of at most 53 bits times a power of two, within a relative error of
  \<open>1 / 2 ^ 53\<close> of the exact quotient.
\<close>

theorem login_for_access_token_responses:
  "(authenticator = None \<longrightarrow>
      login_for_access_token env form_username form_password authenticator settings =
        Inl (HTTPException 404
               (if allow_anonymous_access settings
                then ''This is a public Tiled server with no login.''
                else ''This is a single-user Tiled server. To authenticate, use the API key logged at server startup.'')
               []))
   \<and> (authenticator = Some authenticate \<and>
        (authenticate form_username form_password = None \<or>
         authenticate form_username form_password = Some []) \<longrightarrow>
      login_for_access_token env form_username form_password authenticator settings =
        Inl (HTTPException 401 ''Incorrect username or password''
               [(''WWW-Authenticate'', ''Bearer'')]))
   \<and> (authenticator = Some authenticate \<and>
        authenticate form_username form_password = Some username \<and> username \<noteq> [] \<and>
        secret_keys settings = key # rest \<longrightarrow>
      login_for_access_token env form_username form_password authenticator settings =
        Inr \<lparr>access_token =
               jwt_encode \<lparr>sub_claim = Some username, type_claim = Some ''access'',
                    exp_claim = Some (utcnow_access env + access_token_max_age settings),
                    iat_claim = None, sid_claim = None, sct_claim = None\<rparr> key,
             expires_in = seconds (access_token_max_age settings),
             refresh_token =
               jwt_encode \<lparr>sub_claim = Some username, type_claim = Some ''refresh'',
                    exp_claim = None,
                    iat_claim = Some (utcnow_refresh env - utcoffset env (utcnow_refresh env)),
                    sid_claim = Some (uuid4_int (urandom env)),
                    sct_claim = Some (utcnow_refresh env - utcoffset env (utcnow_refresh env))\<rparr>
                 key,
             refresh_token_expires_in = seconds (refresh_token_max_age settings),
             token_type = ''bearer''\<rparr>)
   \<and> bit (uuid4_int r) n =
        (if n = 63 \<or> n = 78 then True
         else if n = 62 \<or> n = 76 \<or> n = 77 \<or> n = 79 then False
         else bit r n)
   \<and> \<bar>seconds d - of_int d / 1000000\<bar> \<le> \<bar>of_int d / 1000000\<bar> / 2 ^ 53
   \<and> (\<exists>m e. \<bar>m\<bar> \<le> 2 ^ 53 \<and> seconds d = of_int m * power_int 2 e)"
proof (intro conjI)
  show "bit (uuid4_int r) n =
        (if n = 63 \<or> n = 78 then True
         else if n = 62 \<or> n = 76 \<or> n = 77 \<or> n = 79 then False
         else bit r n)"
    by (rule uuid4_int_bits)
  show "\<bar>seconds d - of_int d / 1000000\<bar> \<le> \<bar>of_int d / 1000000\<bar> / 2 ^ 53"
    by (rule seconds_error)
  show "\<exists>m e. \<bar>m\<bar> \<le> 2 ^ 53 \<and> seconds d = of_int m * power_int 2 e"
    by (rule seconds_is_double)
qed (auto simp: login_for_access_token_def raising_def first_key_def Let_def
        create_access_token_def create_refresh_token_def jwt_encode_def empty_payload_def
        timestamp_def)

theorem login_for_access_token_responses_witness:
  "login_for_access_token
     \<lparr>utcoffset = \<lambda>d. 3600000000, utcnow_decode = 0, utcnow_now = 0,
       utcnow_refresh = 4600000005, utcnow_access = 1000000003, urandom = 1\<rparr> ''alice'' ''pw''
     None
     \<lparr>secret_keys = [''k1'', ''k0''], access_token_max_age = 15000000,
       refresh_token_max_age = 60000000, session_max_age = None,
       allow_anonymous_access = True, single_user_api_key = None\<rparr> =
     Inl (HTTPException 404 ''This is a public Tiled server with no login.'' [])
   \<and> login_for_access_token
     \<lparr>utcoffset = \<lambda>d. 3600000000, utcnow_decode = 0, utcnow_now = 0,
       utcnow_refresh = 4600000005, utcnow_access = 1000000003, urandom = 1\<rparr> ''alice''
     ''guess'' (Some (\<lambda>u p. if p = ''pw'' then Some u else None))
     \<lparr>secret_keys = [''k1'', ''k0''], access_token_max_age = 15000000,
       refresh_token_max_age = 60000000, session_max_age = None,
       allow_anonymous_access = True, single_user_api_key = None\<rparr> =
     Inl (HTTPException 401 ''Incorrect username or password''
            [(''WWW-Authenticate'', ''Bearer'')])
   \<and> login_for_access_token
     \<lparr>utcoffset = \<lambda>d. 3600000000, utcnow_decode = 0, utcnow_now = 0,
       utcnow_refresh = 4600000005, utcnow_access = 1000000003, urandom = 1\<rparr> ''alice'' ''pw''
     (Some (\<lambda>u p. if p = ''pw'' then Some u else None))
     \<lparr>secret_keys = [''k1'', ''k0''], access_token_max_age = 15000000,
       refresh_token_max_age = 60000000, session_max_age = None,
       allow_anonymous_access = True, single_user_api_key = None\<rparr> =
     Inr \<lparr>access_token =
            JWS \<lparr>sub_claim = Some ''alice'', type_claim = Some ''access'',
                 exp_claim = Some 1015000003, iat_claim = None, sid_claim = None,
                 sct_claim = None\<rparr> ''k1'',
          expires_in = 15,
          refresh_token =
            JWS \<lparr>sub_claim = Some ''alice'', type_claim = Some ''refresh'', exp_claim = None,
                 iat_claim = Some 1000000005,
                 sid_claim = Some 302240678275694148452353,
                 sct_claim = Some 1000000005\<rparr> ''k1'',
          refresh_token_expires_in = 60,
          token_type = ''bearer''\<rparr>
   \<and> login_for_access_token
     \<lparr>utcoffset = \<lambda>d. 3600000000, utcnow_decode = 0, utcnow_now = 0,
       utcnow_refresh = 4600000005, utcnow_access = 1000000003, urandom = 1\<rparr> ''alice'' ''pw''
     (Some (\<lambda>u p. if p = ''pw'' then Some u else None))
     \<lparr>secret_keys = [''k1'', ''k0''], access_token_max_age = 100000,
       refresh_token_max_age = 60000000, session_max_age = None,
       allow_anonymous_access = True, single_user_api_key = None\<rparr> =
     Inr \<lparr>access_token =
            JWS \<lparr>sub_claim = Some ''alice'', type_claim = Some ''access'',
                 exp_claim = Some 1000100003, iat_claim = None, sid_claim = None,
                 sct_claim = None\<rparr> ''k1'',
          expires_in = 3602879701896397 / 36028797018963968,
          refresh_token =
            JWS \<lparr>sub_claim = Some ''alice'', type_claim = Some ''refresh'', exp_claim = None,
                 iat_claim = Some 1000000005,
                 sid_claim = Some 302240678275694148452353,
                 sct_claim = Some 1000000005\<rparr> ''k1'',
          refresh_token_expires_in = 60,
          token_type = ''bearer''\<rparr>"
proof (intro conjI)
  let ?e = "\<lparr>utcoffset = \<lambda>d. 3600000000, utcnow_decode = 0, utcnow_now = 0,
       utcnow_refresh = 4600000005, utcnow_access = 1000000003, urandom = 1\<rparr>"
  let ?s = "\<lparr>secret_keys = [''k1'', ''k0''], access_token_max_age = 15000000,
       refresh_token_max_age = 60000000, session_max_age = None,
       allow_anonymous_access = True, single_user_api_key = None\<rparr>"
  let ?a = "\<lambda>u p. if p = ''pw'' then Some u else None"
  have ages: "seconds 15000000 = 15" "seconds 60000000 = 60"
    "seconds 100000 = 3602879701896397 / 36028797018963968"
    by code_simp+
  have sid: "uuid4_int 1 = 302240678275694148452353"
    by (simp add: uuid4_int_def)
  show "login_for_access_token ?e ''alice'' ''pw'' None ?s =
      Inl (HTTPException 404 ''This is a public Tiled server with no login.'' [])"
    using login_for_access_token_responses [where authenticator = None and env = ?e
        and form_username = "''alice''" and form_password = "''pw''" and settings = ?s,
        THEN conjunct1]
    by simp
  show "login_for_access_token ?e ''alice'' ''guess'' (Some ?a) ?s =
      Inl (HTTPException 401 ''Incorrect username or password''
            [(''WWW-Authenticate'', ''Bearer'')])"
    using login_for_access_token_responses [where authenticator = "Some ?a"
        and authenticate = ?a and env = ?e
        and form_username = "''alice''" and form_password = "''guess''" and settings = ?s,
        THEN conjunct2, THEN conjunct1]
    by simp
  show "login_for_access_token ?e ''alice'' ''pw'' (Some ?a) ?s =
      Inr \<lparr>access_token =
            JWS \<lparr>sub_claim = Some ''alice'', type_claim = Some ''access'',
                 exp_claim = Some 1015000003, iat_claim = None, sid_claim = None,
                 sct_claim = None\<rparr> ''k1'',
          expires_in = 15,
          refresh_token =
            JWS \<lparr>sub_claim = Some ''alice'', type_claim = Some ''refresh'', exp_claim = None,
                 iat_claim = Some 1000000005,
                 sid_claim = Some 302240678275694148452353,
                 sct_claim = Some 1000000005\<rparr> ''k1'',
          refresh_token_expires_in = 60,
          token_type = ''bearer''\<rparr>"
    using login_for_access_token_responses [where authenticator = "Some ?a"
        and authenticate = ?a and env = ?e and username = "''alice''"
        and key = "''k1''" and rest = "[''k0'']"
        and form_username = "''alice''" and form_password = "''pw''" and settings = ?s,
        THEN conjunct2, THEN conjunct2, THEN conjunct1]
    by (simp add: jwt_encode_def ages sid)
  show "login_for_access_token ?e ''alice'' ''pw'' (Some ?a)
      \<lparr>secret_keys = [''k1'', ''k0''], access_token_max_age = 100000,
       refresh_token_max_age = 60000000, session_max_age = None,
       allow_anonymous_access = True, single_user_api_key = None\<rparr> =
      Inr \<lparr>access_token =
            JWS \<lparr>sub_claim = Some ''alice'', type_claim = Some ''access'',
                 exp_claim = Some 1000100003, iat_claim = None, sid_claim = None,
                 sct_claim = None\<rparr> ''k1'',
          expires_in = 3602879701896397 / 36028797018963968,
          refresh_token =
            JWS \<lparr>sub_claim = Some ''alice'', type_claim = Some ''refresh'', exp_claim = None,
                 iat_claim = Some 1000000005,
                 sid_claim = Some 302240678275694148452353,
                 sct_claim = Some 1000000005\<rparr> ''k1'',
          refresh_token_expires_in = 60,
          token_type = ''bearer''\<rparr>"
    using login_for_access_token_responses [where authenticator = "Some ?a"
        and authenticate = ?a and env = ?e and username = "''alice''"
        and key = "''k1''" and rest = "[''k0'']"
        and form_username = "''alice''" and form_password = "''pw''"
        and settings = "\<lparr>secret_keys = [''k1'', ''k0''], access_token_max_age = 100000,
          refresh_token_max_age = 60000000, session_max_age = None,
          allow_anonymous_access = True, single_user_api_key = None\<rparr>",
        THEN conjunct2, THEN conjunct2, THEN conjunct1]
    by (simp add: jwt_encode_def ages sid)
qed

text \<open>
  A refresh token that decodes, is one second old and carries no \<^verbatim>\<open>sct\<close> claim neither
  fails with 401 nor succeeds: the subscript \<^verbatim>\<open>payload["sct"]\<close> raises.
\<close>

theorem refresh_session_policy_counterexample:
  "decode_token 1000000000
     (JWS \<lparr>sub_claim = Some ''alice'', type_claim = Some ''refresh'', exp_claim = None,
           iat_claim = Some 999000000, sid_claim = Some 7, sct_claim = None\<rparr> ''k0'')
     [''k1'', ''k0''] ''refresh'' =
     Inr \<lparr>sub_claim = Some ''alice'', type_claim = Some ''refresh'', exp_claim = None,
          iat_claim = Some 999000000, sid_claim = Some 7, sct_claim = None\<rparr>
   \<and> refresh \<lparr>utcoffset = \<lambda>d. 0, utcnow_decode = 1000000000, utcnow_now = 1000000000,
            utcnow_refresh = 1000000005, utcnow_access = 1000000007, urandom = 0\<rparr>
     (JWS \<lparr>sub_claim = Some ''alice'', type_claim = Some ''refresh'', exp_claim = None,
           iat_claim = Some 999000000, sid_claim = Some 7, sct_claim = None\<rparr> ''k0'')
     \<lparr>secret_keys = [''k1'', ''k0''], access_token_max_age = 15000000,
       refresh_token_max_age = 60000000, session_max_age = None,
       allow_anonymous_access = False, single_user_api_key = None\<rparr> =
     Inl (KeyError ''sct'')"
  by (simp add: refresh_def raising_def getitem_def decode_token_def jwt_decode_def
        timestamp_def)

text \<open>
  C1 (amended): for a refresh request whose token decodes as a refresh token and
  carries the \<^verbatim>\<open>iat\<close> claim, with \<open>now\<close> the timestamp the request reads: the request fails
  with 401 "Session has expired. Please re-authenticate." when \<open>now - iat\<close> exceeds the
  refresh token max age; it fails in the same way when a session max age is
  configured, the token carries \<^verbatim>\<open>sct\<close> and \<open>now - sct\<close> exceeds the session max age,
  whatever \<open>iat\<close> is; and when the token carries \<^verbatim>\<open>sct\<close>, \<^verbatim>\<open>sid\<close> and \<^verbatim>\<open>sub\<close> as well and
  neither age is exceeded, it succeeds and issues a new access token and a new refresh
  token. A token issued one second more than the max age ago fails; a token with all
  four claims issued one second less than the max age ago succeeds when the session
  age passes.
\<close>

theorem refresh_session_policy:
  "decode_token (utcnow_decode env) tok (secret_keys settings) ''refresh'' = Inr payload \<and>
   iat_claim payload = Some iat \<and>
   now = utcnow_now env - utcoffset env (utcnow_now env) \<longrightarrow>
     (now - iat > refresh_token_max_age settings \<longrightarrow>
        refresh env tok settings =
          Inl (HTTPException 401 ''Session has expired. Please re-authenticate.'' []))
   \<and> (session_max_age settings = Some max_age \<and> sct_claim payload = Some sct \<and>
        now - sct > max_age \<longrightarrow>
        refresh env tok settings =
          Inl (HTTPException 401 ''Session has expired. Please re-authenticate.'' []))
   \<and> (sct_claim payload = Some sct \<and> sid_claim payload = Some sid \<and>
        sub_claim payload = Some sub \<and>
        now - iat \<le> refresh_token_max_age settings \<and>
        (\<forall>m. session_max_age settings = Some m \<longrightarrow> now - sct \<le> m) \<longrightarrow>
        secret_keys settings \<noteq> [] \<and>
        refresh env tok settings =
          Inr \<lparr>access_token =
                 jwt_encode \<lparr>sub_claim = Some sub, type_claim = Some ''access'',
                      exp_claim = Some (utcnow_access env + access_token_max_age settings),
                      iat_claim = None, sid_claim = None, sct_claim = None\<rparr>
                   (hd (secret_keys settings)),
               expires_in = seconds (access_token_max_age settings),
               refresh_token =
                 jwt_encode \<lparr>sub_claim = Some sub, type_claim = Some ''refresh'',
                      exp_claim = None,
                      iat_claim = Some (utcnow_refresh env - utcoffset env (utcnow_refresh env)),
                      sid_claim = Some (if sid \<noteq> 0 then sid else uuid4_int (urandom env)),
                      sct_claim = Some sct\<rparr>
                   (hd (secret_keys settings)),
               refresh_token_expires_in = seconds (refresh_token_max_age settings),
               token_type = ''bearer''\<rparr>)
   \<and> (iat = now - refresh_token_max_age settings - 1000000 \<longrightarrow>
        refresh env tok settings =
          Inl (HTTPException 401 ''Session has expired. Please re-authenticate.'' []))
   \<and> (iat = now - refresh_token_max_age settings + 1000000 \<and>
        sct_claim payload = Some sct \<and> sid_claim payload = Some sid \<and>
        sub_claim payload = Some sub \<and>
        (\<forall>m. session_max_age settings = Some m \<longrightarrow> now - sct \<le> m) \<longrightarrow>
        (\<exists>response. refresh env tok settings = Inr response))"
proof (intro impI)
  assume h: "decode_token (utcnow_decode env) tok (secret_keys settings) ''refresh'' =
      Inr payload \<and> iat_claim payload = Some iat \<and>
      now = utcnow_now env - utcoffset env (utcnow_now env)"
  then have d: "decode_token (utcnow_decode env) tok (secret_keys settings) ''refresh'' =
      Inr payload"
    and i: "iat_claim payload = Some iat"
    and n: "now = utcnow_now env - utcoffset env (utcnow_now env)"
    by simp_all
  from d obtain k ks where keys: "secret_keys settings = k # ks"
    by (cases "secret_keys settings") (auto dest: decode_token_nonempty)
  have old: "now - iat > refresh_token_max_age settings \<Longrightarrow>
      refresh env tok settings =
        Inl (HTTPException 401 ''Session has expired. Please re-authenticate.'' [])"
    by (simp add: refresh_def raising_def getitem_def d i n timestamp_def Let_def
          session_expired_def)
  have session: "session_max_age settings = Some max_age \<Longrightarrow> sct_claim payload = Some sct \<Longrightarrow>
      now - sct > max_age \<Longrightarrow>
      refresh env tok settings =
        Inl (HTTPException 401 ''Session has expired. Please re-authenticate.'' [])"
    by (simp add: refresh_def raising_def getitem_def d i n timestamp_def Let_def
          session_expired_def)
  have pass: "sct_claim payload = Some sct \<Longrightarrow> sid_claim payload = Some sid \<Longrightarrow>
      sub_claim payload = Some sub \<Longrightarrow> now - iat \<le> refresh_token_max_age settings \<Longrightarrow>
      (\<forall>m. session_max_age settings = Some m \<longrightarrow> now - sct \<le> m) \<Longrightarrow>
      refresh env tok settings =
          Inr \<lparr>access_token =
                 jwt_encode \<lparr>sub_claim = Some sub, type_claim = Some ''access'',
                      exp_claim = Some (utcnow_access env + access_token_max_age settings),
                      iat_claim = None, sid_claim = None, sct_claim = None\<rparr>
                   (hd (secret_keys settings)),
               expires_in = seconds (access_token_max_age settings),
               refresh_token =
                 jwt_encode \<lparr>sub_claim = Some sub, type_claim = Some ''refresh'',
                      exp_claim = None,
                      iat_claim = Some (utcnow_refresh env - utcoffset env (utcnow_refresh env)),
                      sid_claim = Some (if sid \<noteq> 0 then sid else uuid4_int (urandom env)),
                      sct_claim = Some sct\<rparr>
                   (hd (secret_keys settings)),
               refresh_token_expires_in = seconds (refresh_token_max_age settings),
               token_type = ''bearer''\<rparr>"
    using n by (auto simp: refresh_wellformed [OF d i] session_expired_def jwt_encode_def
          not_less split: option.splits)
  show "(now - iat > refresh_token_max_age settings \<longrightarrow>
        refresh env tok settings =
          Inl (HTTPException 401 ''Session has expired. Please re-authenticate.'' []))
   \<and> (session_max_age settings = Some max_age \<and> sct_claim payload = Some sct \<and>
        now - sct > max_age \<longrightarrow>
        refresh env tok settings =
          Inl (HTTPException 401 ''Session has expired. Please re-authenticate.'' []))
   \<and> (sct_claim payload = Some sct \<and> sid_claim payload = Some sid \<and>
        sub_claim payload = Some sub \<and>
        now - iat \<le> refresh_token_max_age settings \<and>
        (\<forall>m. session_max_age settings = Some m \<longrightarrow> now - sct \<le> m) \<longrightarrow>
        secret_keys settings \<noteq> [] \<and>
        refresh env tok settings =
          Inr \<lparr>access_token =
                 jwt_encode \<lparr>sub_claim = Some sub, type_claim = Some ''access'',
                      exp_claim = Some (utcnow_access env + access_token_max_age settings),
                      iat_claim = None, sid_claim = None, sct_claim = None\<rparr>
                   (hd (secret_keys settings)),
               expires_in = seconds (access_token_max_age settings),
               refresh_token =
                 jwt_encode \<lparr>sub_claim = Some sub, type_claim = Some ''refresh'',
                      exp_claim = None,
                      iat_claim = Some (utcnow_refresh env - utcoffset env (utcnow_refresh env)),
                      sid_claim = Some (if sid \<noteq> 0 then sid else uuid4_int (urandom env)),
                      sct_claim = Some sct\<rparr>
                   (hd (secret_keys settings)),
               refresh_token_expires_in = seconds (refresh_token_max_age settings),
               token_type = ''bearer''\<rparr>)
   \<and> (iat = now - refresh_token_max_age settings - 1000000 \<longrightarrow>
        refresh env tok settings =
          Inl (HTTPException 401 ''Session has expired. Please re-authenticate.'' []))
   \<and> (iat = now - refresh_token_max_age settings + 1000000 \<and>
        sct_claim payload = Some sct \<and> sid_claim payload = Some sid \<and>
        sub_claim payload = Some sub \<and>
        (\<forall>m. session_max_age settings = Some m \<longrightarrow> now - sct \<le> m) \<longrightarrow>
        (\<exists>response. refresh env tok settings = Inr response))"
  proof (intro conjI impI)
    assume "now - iat > refresh_token_max_age settings"
    then show "refresh env tok settings =
        Inl (HTTPException 401 ''Session has expired. Please re-authenticate.'' [])"
      by (rule old)
  next
    assume "session_max_age settings = Some max_age \<and> sct_claim payload = Some sct \<and>
        now - sct > max_age"
    then show "refresh env tok settings =
        Inl (HTTPException 401 ''Session has expired. Please re-authenticate.'' [])"
      using session by blast
  next
    assume "sct_claim payload = Some sct \<and> sid_claim payload = Some sid \<and>
        sub_claim payload = Some sub \<and>
        now - iat \<le> refresh_token_max_age settings \<and>
        (\<forall>m. session_max_age settings = Some m \<longrightarrow> now - sct \<le> m)"
    then show "secret_keys settings \<noteq> []"
      by (simp add: keys)
  next
    assume "sct_claim payload = Some sct \<and> sid_claim payload = Some sid \<and>
        sub_claim payload = Some sub \<and>
        now - iat \<le> refresh_token_max_age settings \<and>
        (\<forall>m. session_max_age settings = Some m \<longrightarrow> now - sct \<le> m)"
    then show "refresh env tok settings =
          Inr \<lparr>access_token =
                 jwt_encode \<lparr>sub_claim = Some sub, type_claim = Some ''access'',
                      exp_claim = Some (utcnow_access env + access_token_max_age settings),
                      iat_claim = None, sid_claim = None, sct_claim = None\<rparr>
                   (hd (secret_keys settings)),
               expires_in = seconds (access_token_max_age settings),
               refresh_token =
                 jwt_encode \<lparr>sub_claim = Some sub, type_claim = Some ''refresh'',
                      exp_claim = None,
                      iat_claim = Some (utcnow_refresh env - utcoffset env (utcnow_refresh env)),
                      sid_claim = Some (if sid \<noteq> 0 then sid else uuid4_int (urandom env)),
                      sct_claim = Some sct\<rparr>
                   (hd (secret_keys settings)),
               refresh_token_expires_in = seconds (refresh_token_max_age settings),
               token_type = ''bearer''\<rparr>"
      using pass by blast
  next
    assume "iat = now - refresh_token_max_age settings - 1000000"
    then have "now - iat > refresh_token_max_age settings"
      by simp
    then show "refresh env tok settings =
        Inl (HTTPException 401 ''Session has expired. Please re-authenticate.'' [])"
      by (rule old)
  next
    assume a: "iat = now - refresh_token_max_age settings + 1000000 \<and>
        sct_claim payload = Some sct \<and> sid_claim payload = Some sid \<and>
        sub_claim payload = Some sub \<and>
        (\<forall>m. session_max_age settings = Some m \<longrightarrow> now - sct \<le> m)"
    then have "now - iat \<le> refresh_token_max_age settings"
      by simp
    with a pass show "\<exists>response. refresh env tok settings = Inr response"
      by blast
  qed
qed

theorem refresh_session_policy_witness:
  "refresh \<lparr>utcoffset = \<lambda>d. 7200000000, utcnow_decode = 1000000000,
            utcnow_now = 8200000000, utcnow_refresh = 8200000005,
            utcnow_access = 1000000007, urandom = 0\<rparr>
     (JWS \<lparr>sub_claim = Some ''alice'', type_claim = Some ''refresh'', exp_claim = None,
           iat_claim = Some 939000000, sid_claim = Some 7, sct_claim = Some 939000000\<rparr> ''k0'')
     \<lparr>secret_keys = [''k1'', ''k0''], access_token_max_age = 15000000,
       refresh_token_max_age = 60000000, session_max_age = Some 600000000,
       allow_anonymous_access = False, single_user_api_key = None\<rparr> =
     Inl (HTTPException 401 ''Session has expired. Please re-authenticate.'' [])
   \<and> refresh \<lparr>utcoffset = \<lambda>d. 7200000000, utcnow_decode = 1000000000,
            utcnow_now = 8200000000, utcnow_refresh = 8200000005,
            utcnow_access = 1000000007, urandom = 0\<rparr>
     (JWS \<lparr>sub_claim = Some ''alice'', type_claim = Some ''refresh'', exp_claim = None,
           iat_claim = Some 941000000, sid_claim = Some 7, sct_claim = Some 941000000\<rparr> ''k0'')
     \<lparr>secret_keys = [''k1'', ''k0''], access_token_max_age = 15000000,
       refresh_token_max_age = 60000000, session_max_age = Some 600000000,
       allow_anonymous_access = False, single_user_api_key = None\<rparr> =
     Inr \<lparr>access_token =
            JWS \<lparr>sub_claim = Some ''alice'', type_claim = Some ''access'',
                 exp_claim = Some 1015000007, iat_claim = None, sid_claim = None,
                 sct_claim = None\<rparr> ''k1'',
          expires_in = 15,
          refresh_token =
            JWS \<lparr>sub_claim = Some ''alice'', type_claim = Some ''refresh'', exp_claim = None,
                 iat_claim = Some 1000000005, sid_claim = Some 7,
                 sct_claim = Some 941000000\<rparr> ''k1'',
          refresh_token_expires_in = 60,
          token_type = ''bearer''\<rparr>
   \<and> refresh \<lparr>utcoffset = \<lambda>d. 7200000000, utcnow_decode = 1000000000,
            utcnow_now = 8200000000, utcnow_refresh = 8200000005,
            utcnow_access = 1000000007, urandom = 0\<rparr>
     (JWS \<lparr>sub_claim = Some ''alice'', type_claim = Some ''refresh'', exp_claim = None,
           iat_claim = Some 999000000, sid_claim = Some 7, sct_claim = Some 399000000\<rparr> ''k0'')
     \<lparr>secret_keys = [''k1'', ''k0''], access_token_max_age = 15000000,
       refresh_token_max_age = 60000000, session_max_age = Some 600000000,
       allow_anonymous_access = False, single_user_api_key = None\<rparr> =
     Inl (HTTPException 401 ''Session has expired. Please re-authenticate.'' [])
   \<and> refresh \<lparr>utcoffset = \<lambda>d. 7200000000, utcnow_decode = 1000000000,
            utcnow_now = 8200000000, utcnow_refresh = 8200000005,
            utcnow_access = 1000000007, urandom = 0\<rparr>
     (JWS \<lparr>sub_claim = None, type_claim = Some ''refresh'', exp_claim = None,
           iat_claim = Some 900000000, sid_claim = None, sct_claim = None\<rparr> ''k0'')
     \<lparr>secret_keys = [''k1'', ''k0''], access_token_max_age = 15000000,
       refresh_token_max_age = 60000000, session_max_age = Some 600000000,
       allow_anonymous_access = False, single_user_api_key = None\<rparr> =
     Inl (HTTPException 401 ''Session has expired. Please re-authenticate.'' [])"
proof (intro conjI)
  let ?e = "\<lparr>utcoffset = \<lambda>d. 7200000000, utcnow_decode = 1000000000,
            utcnow_now = 8200000000, utcnow_refresh = 8200000005,
            utcnow_access = 1000000007, urandom = 0\<rparr>"
  let ?s = "\<lparr>secret_keys = [''k1'', ''k0''], access_token_max_age = 15000000,
       refresh_token_max_age = 60000000, session_max_age = Some 600000000,
       allow_anonymous_access = False, single_user_api_key = None\<rparr>"
  let ?p = "\<lambda>iat sct. \<lparr>sub_claim = Some ''alice'', type_claim = Some ''refresh'',
       exp_claim = None, iat_claim = Some iat, sid_claim = Some 7, sct_claim = Some sct\<rparr>"
  let ?bare = "\<lparr>sub_claim = None, type_claim = Some ''refresh'', exp_claim = None,
       iat_claim = Some 900000000, sid_claim = None, sct_claim = None\<rparr>"
  have ages: "seconds 15000000 = 15" "seconds 60000000 = 60"
    by code_simp+
  show "refresh ?e (JWS (?p 939000000 939000000) ''k0'') ?s =
      Inl (HTTPException 401 ''Session has expired. Please re-authenticate.'' [])"
    using refresh_session_policy [where env = ?e and settings = ?s
        and tok = "JWS (?p 939000000 939000000) ''k0''" and payload = "?p 939000000 939000000"
        and iat = 939000000 and now = 1000000000]
    by (simp add: decode_token_def jwt_decode_def)
  show "refresh ?e (JWS (?p 941000000 941000000) ''k0'') ?s =
      Inr \<lparr>access_token =
            JWS \<lparr>sub_claim = Some ''alice'', type_claim = Some ''access'',
                 exp_claim = Some 1015000007, iat_claim = None, sid_claim = None,
                 sct_claim = None\<rparr> ''k1'',
          expires_in = 15,
          refresh_token = JWS (?p 1000000005 941000000) ''k1'',
          refresh_token_expires_in = 60,
          token_type = ''bearer''\<rparr>"
    using refresh_session_policy [where env = ?e and settings = ?s
        and tok = "JWS (?p 941000000 941000000) ''k0''" and payload = "?p 941000000 941000000"
        and iat = 941000000 and sct = 941000000 and sid = 7 and sub = "''alice''"
        and now = 1000000000]
    by (simp add: decode_token_def jwt_decode_def jwt_encode_def ages)
  show "refresh ?e (JWS (?p 999000000 399000000) ''k0'') ?s =
      Inl (HTTPException 401 ''Session has expired. Please re-authenticate.'' [])"
    using refresh_session_policy [where env = ?e and settings = ?s
        and tok = "JWS (?p 999000000 399000000) ''k0''" and payload = "?p 999000000 399000000"
        and iat = 999000000 and sct = 399000000 and max_age = 600000000
        and now = 1000000000]
    by (simp add: decode_token_def jwt_decode_def)
  show "refresh ?e (JWS ?bare ''k0'') ?s =
      Inl (HTTPException 401 ''Session has expired. Please re-authenticate.'' [])"
    using refresh_session_policy [where env = ?e and settings = ?s
        and tok = "JWS ?bare ''k0''" and payload = ?bare
        and iat = 900000000 and now = 1000000000]
    by (simp add: decode_token_def jwt_decode_def)
qed

lemma refresh_of_chain_token:
  assumes keys: "secret_keys settings = key # rest" and sid: "sid \<noteq> 0"
    and ok: "refresh env
       (JWS \<lparr>sub_claim = Some sub, type_claim = Some ''refresh'', exp_claim = None,
             iat_claim = Some iat, sid_claim = Some sid, sct_claim = Some sct\<rparr> key)
       settings = Inr response"
  shows "refresh_token response =
       JWS \<lparr>sub_claim = Some sub, type_claim = Some ''refresh'', exp_claim = None,
            iat_claim = Some (utcnow_refresh env - utcoffset env (utcnow_refresh env)),
            sid_claim = Some sid, sct_claim = Some sct\<rparr> key"
proof -
  let ?p = "\<lparr>sub_claim = Some sub, type_claim = Some ''refresh'', exp_claim = None,
             iat_claim = Some iat, sid_claim = Some sid, sct_claim = Some sct\<rparr>"
  have d: "decode_token (utcnow_decode env) (JWS ?p key) (secret_keys settings) ''refresh'' =
      Inr ?p"
    by (simp add: keys decode_token_def jwt_decode_def)
  show ?thesis
    using ok sid
    by (auto simp: refresh_wellformed [OF d, of iat sct sid sub] keys split: if_splits)
qed

lemma refresh_chain_tokens:
  assumes keys: "secret_keys settings = key # rest" and sid: "sid \<noteq> 0"
  shows "refresh_chain settings
       (JWS \<lparr>sub_claim = Some sub, type_claim = Some ''refresh'', exp_claim = None,
             iat_claim = Some iat, sid_claim = Some sid, sct_claim = Some sct\<rparr> key)
       envs = Inr toks \<Longrightarrow>
     toks = map (\<lambda>env. JWS \<lparr>sub_claim = Some sub, type_claim = Some ''refresh'',
                            exp_claim = None,
                            iat_claim =
                              Some (utcnow_refresh env - utcoffset env (utcnow_refresh env)),
                            sid_claim = Some sid, sct_claim = Some sct\<rparr> key) envs"
proof (induction envs arbitrary: iat toks)
  case Nil
  then show ?case by simp
next
  case (Cons env envs)
  let ?tok = "JWS \<lparr>sub_claim = Some sub, type_claim = Some ''refresh'', exp_claim = None,
             iat_claim = Some iat, sid_claim = Some sid, sct_claim = Some sct\<rparr> key"
  from Cons.prems obtain response toks' where
    r: "refresh env ?tok settings = Inr response" and
    c: "refresh_chain settings (refresh_token response) envs = Inr toks'" and
    t: "toks = refresh_token response # toks'"
    by (auto simp: raising_def split: sum.splits)
  note next_token = refresh_of_chain_token [OF keys sid r]
  from c have "toks' = map (\<lambda>env. JWS \<lparr>sub_claim = Some sub, type_claim = Some ''refresh'',
                            exp_claim = None,
                            iat_claim =
                              Some (utcnow_refresh env - utcoffset env (utcnow_refresh env)),
                            sid_claim = Some sid, sct_claim = Some sct\<rparr> key) envs"
    unfolding next_token by (rule Cons.IH)
  with t next_token show ?case by simp
qed

text \<open>
  C2: after a login, for a chain of successful refresh calls of any length, each
  presenting the refresh token of the previous response, every derived refresh token
  has the subject, the session identifier and the session creation time of the
  login's refresh token and is signed by the same key; the tokens differ in \<^verbatim>\<open>iat\<close>
  alone, which is the timestamp of the instant at which each call created its token.
\<close>

theorem refresh_chain_invariant:
  "login_for_access_token login_env form_username form_password authenticator settings =
     Inr response \<and>
   refresh_chain settings (refresh_token response) envs = Inr toks \<longrightarrow>
   (\<exists>sub sid sct key.
      refresh_token response =
        JWS \<lparr>sub_claim = Some sub, type_claim = Some ''refresh'', exp_claim = None,
             iat_claim =
               Some (utcnow_refresh login_env - utcoffset login_env (utcnow_refresh login_env)),
             sid_claim = Some sid, sct_claim = Some sct\<rparr> key \<and>
      toks = map (\<lambda>env. JWS \<lparr>sub_claim = Some sub, type_claim = Some ''refresh'',
                             exp_claim = None,
                             iat_claim =
                               Some (utcnow_refresh env - utcoffset env (utcnow_refresh env)),
                             sid_claim = Some sid, sct_claim = Some sct\<rparr> key) envs)"
proof (intro impI)
  assume h: "login_for_access_token login_env form_username form_password authenticator settings =
      Inr response \<and> refresh_chain settings (refresh_token response) envs = Inr toks"
  let ?t0 = "utcnow_refresh login_env - utcoffset login_env (utcnow_refresh login_env)"
  from h obtain username key rest where keys: "secret_keys settings = key # rest"
    and tok: "refresh_token response =
        JWS \<lparr>sub_claim = Some username, type_claim = Some ''refresh'', exp_claim = None,
             iat_claim = Some ?t0, sid_claim = Some (uuid4_int (urandom login_env)),
             sct_claim = Some ?t0\<rparr> key"
    by (cases "secret_keys settings")
       (auto simp: login_for_access_token_def raising_def first_key_def Let_def
          create_refresh_token_def jwt_encode_def empty_payload_def timestamp_def
          split: option.splits if_splits)
  from h have "refresh_chain settings (refresh_token response) envs = Inr toks"
    by simp
  then have "toks = map (\<lambda>env. JWS \<lparr>sub_claim = Some username, type_claim = Some ''refresh'',
                             exp_claim = None,
                             iat_claim =
                               Some (utcnow_refresh env - utcoffset env (utcnow_refresh env)),
                             sid_claim = Some (uuid4_int (urandom login_env)),
                             sct_claim = Some ?t0\<rparr> key) envs"
    unfolding tok by (rule refresh_chain_tokens [OF keys uuid4_int_nonzero])
  with tok show "\<exists>sub sid sct key.
      refresh_token response =
        JWS \<lparr>sub_claim = Some sub, type_claim = Some ''refresh'', exp_claim = None,
             iat_claim = Some ?t0, sid_claim = Some sid, sct_claim = Some sct\<rparr> key \<and>
      toks = map (\<lambda>env. JWS \<lparr>sub_claim = Some sub, type_claim = Some ''refresh'',
                             exp_claim = None,
                             iat_claim =
                               Some (utcnow_refresh env - utcoffset env (utcnow_refresh env)),
                             sid_claim = Some sid, sct_claim = Some sct\<rparr> key) envs"
    by blast
qed

theorem refresh_chain_invariant_witness:
  "login_for_access_token
       \<lparr>utcoffset = \<lambda>d. 0, utcnow_decode = 0, utcnow_now = 0, utcnow_refresh = 1000000005,
         utcnow_access = 1000000003, urandom = 0\<rparr> ''alice'' ''pw''
       (Some (\<lambda>u p. if p = ''pw'' then Some u else None))
       \<lparr>secret_keys = [''k1'', ''k0''], access_token_max_age = 15000000,
         refresh_token_max_age = 60000000, session_max_age = Some 600000000,
         allow_anonymous_access = False, single_user_api_key = None\<rparr> =
     Inr \<lparr>access_token =
            JWS \<lparr>sub_claim = Some ''alice'', type_claim = Some ''access'',
                 exp_claim = Some 1015000003, iat_claim = None, sid_claim = None,
                 sct_claim = None\<rparr> ''k1'',
          expires_in = 15,
          refresh_token =
            JWS \<lparr>sub_claim = Some ''alice'', type_claim = Some ''refresh'', exp_claim = None,
                 iat_claim = Some 1000000005, sid_claim = Some (uuid4_int 0),
                 sct_claim = Some 1000000005\<rparr> ''k1'',
          refresh_token_expires_in = 60, token_type = ''bearer''\<rparr>
   \<and> refresh_chain
       \<lparr>secret_keys = [''k1'', ''k0''], access_token_max_age = 15000000,
         refresh_token_max_age = 60000000, session_max_age = Some 600000000,
         allow_anonymous_access = False, single_user_api_key = None\<rparr>
       (JWS \<lparr>sub_claim = Some ''alice'', type_claim = Some ''refresh'', exp_claim = None,
             iat_claim = Some 1000000005, sid_claim = Some (uuid4_int 0),
             sct_claim = Some 1000000005\<rparr> ''k1'')
       [\<lparr>utcoffset = \<lambda>d. 0, utcnow_decode = 1030000004, utcnow_now = 1030000005,
          utcnow_refresh = 1030000006, utcnow_access = 1030000007, urandom = 1\<rparr>,
        \<lparr>utcoffset = \<lambda>d. 0, utcnow_decode = 1080000005, utcnow_now = 1080000006,
          utcnow_refresh = 1080000009, utcnow_access = 1080000010, urandom = 2\<rparr>] =
     Inr [JWS \<lparr>sub_claim = Some ''alice'', type_claim = Some ''refresh'', exp_claim = None,
               iat_claim = Some 1030000006, sid_claim = Some (uuid4_int 0),
               sct_claim = Some 1000000005\<rparr> ''k1'',
          JWS \<lparr>sub_claim = Some ''alice'', type_claim = Some ''refresh'', exp_claim = None,
               iat_claim = Some 1080000009, sid_claim = Some (uuid4_int 0),
               sct_claim = Some 1000000005\<rparr> ''k1'']"
proof -
  let ?e0 = "\<lparr>utcoffset = \<lambda>d. 0, utcnow_decode = 0, utcnow_now = 0,
         utcnow_refresh = 1000000005, utcnow_access = 1000000003, urandom = 0\<rparr>"
  let ?a = "\<lambda>u p. if p = ''pw'' then Some u else None"
  let ?s = "\<lparr>secret_keys = [''k1'', ''k0''], access_token_max_age = 15000000,
         refresh_token_max_age = 60000000, session_max_age = Some 600000000,
         allow_anonymous_access = False, single_user_api_key = None\<rparr>"
  let ?p = "\<lambda>iat. \<lparr>sub_claim = Some ''alice'', type_claim = Some ''refresh'', exp_claim = None,
             iat_claim = Some iat, sid_claim = Some (uuid4_int 0),
             sct_claim = Some 1000000005\<rparr>"
  let ?envs = "[\<lparr>utcoffset = \<lambda>d. 0, utcnow_decode = 1030000004, utcnow_now = 1030000005,
          utcnow_refresh = 1030000006, utcnow_access = 1030000007, urandom = 1\<rparr>,
        \<lparr>utcoffset = \<lambda>d. 0, utcnow_decode = 1080000005, utcnow_now = 1080000006,
          utcnow_refresh = 1080000009, utcnow_access = 1080000010, urandom = 2\<rparr>]"
  let ?r0 = "\<lparr>access_token =
            JWS \<lparr>sub_claim = Some ''alice'', type_claim = Some ''access'',
                 exp_claim = Some 1015000003, iat_claim = None, sid_claim = None,
                 sct_claim = None\<rparr> ''k1'',
          expires_in = 15, refresh_token = JWS (?p 1000000005) ''k1'',
          refresh_token_expires_in = 60, token_type = ''bearer''\<rparr>"
  have ages: "seconds 15000000 = 15" "seconds 60000000 = 60"
    by code_simp+
  have login: "login_for_access_token ?e0 ''alice'' ''pw'' (Some ?a) ?s = Inr ?r0"
    by (simp add: login_for_access_token_def raising_def first_key_def Let_def
          create_access_token_def create_refresh_token_def jwt_encode_def empty_payload_def
          timestamp_def ages)
  have chain: "\<exists>toks. refresh_chain ?s (refresh_token ?r0) ?envs = Inr toks"
    by (simp add: raising_def refresh_def decode_token_def jwt_decode_def getitem_def
          first_key_def Let_def create_access_token_def create_refresh_token_def
          jwt_encode_def empty_payload_def uuid4_int_nonzero timestamp_def)
  then obtain toks where toks: "refresh_chain ?s (refresh_token ?r0) ?envs = Inr toks"
    by blast
  from refresh_chain_invariant [where login_env = ?e0 and form_username = "''alice''"
      and form_password = "''pw''" and authenticator = "Some ?a" and settings = ?s
      and response = ?r0 and envs = ?envs and toks = toks] login toks
  have "toks = [JWS (?p 1030000006) ''k1'', JWS (?p 1080000009) ''k1'']"
    by auto
  with toks login show ?thesis
    by simp
qed

end
